theory Spec2Isabelle
  imports Complex_Main
begin

section \<open>The main window of the thermography GUI\<close>

text \<open>
  The development embeds \<^verbatim>\<open>gui/dialogs/thermo_gui_dialog.py\<close>: the class
  \<^verbatim>\<open>ThermoGUI\<close>, which marshals widget values into the configuration of the processing
  engine and controls the worker thread that runs the engine.

  Python numbers read from numeric controls are modelled as reals (an integer control
  holds an integral real); binary floating point rounding is not modelled.
\<close>

subsection \<open>Frames and images\<close>

text \<open>
  A frame is a numpy array of pixels: either one channel per pixel or three. The rows are
  kept as lists, a colour pixel as the triple of its channels in stored order.
\<close>

datatype ndarray =
    Gray "nat list list"
  | Color "(nat \<times> nat \<times> nat) list list"

text \<open>\<^verbatim>\<open>frame.shape[0]\<close> and \<^verbatim>\<open>frame.shape[1]\<close>: the number of rows and of columns.\<close>

fun shape0 :: "ndarray \<Rightarrow> nat" where
  "shape0 (Gray rows) = length rows"
| "shape0 (Color rows) = length rows"

fun shape1 :: "ndarray \<Rightarrow> nat" where
  "shape1 (Gray rows) = (case rows of [] \<Rightarrow> 0 | r # _ \<Rightarrow> length r)"
| "shape1 (Color rows) = (case rows of [] \<Rightarrow> 0 | r # _ \<Rightarrow> length r)"

datatype color_code = COLOR_BGR2RGB | COLOR_GRAY2RGB

datatype error = InvalidNumberOfChannels color_code

text \<open>
  \<^verbatim>\<open>cv2.cvtColor\<close>: \<^verbatim>\<open>COLOR_BGR2RGB\<close> reverses the channel order of a three channel
  frame, \<^verbatim>\<open>COLOR_GRAY2RGB\<close> repeats the single channel three times. A frame with the
  wrong number of channels for the conversion code raises an error.
\<close>

fun cvtColor :: "ndarray \<Rightarrow> color_code \<Rightarrow> error + ndarray" where
  "cvtColor (Color rows) COLOR_BGR2RGB = Inr (Color (map (map (\<lambda>(b, g, r). (r, g, b))) rows))"
| "cvtColor (Gray rows) COLOR_GRAY2RGB = Inr (Color (map (map (\<lambda>g. (g, g, g))) rows))"
| "cvtColor (Gray rows) COLOR_BGR2RGB = Inl (InvalidNumberOfChannels COLOR_BGR2RGB)"
| "cvtColor (Color rows) COLOR_GRAY2RGB = Inl (InvalidNumberOfChannels COLOR_GRAY2RGB)"

datatype aspect_ratio_mode = KeepAspectRatio
datatype transformation_mode = SmoothTransformation

text \<open>
  A \<^verbatim>\<open>QImage\<close> is either built over the data of a frame with a width and a height, or
  the result of \<^verbatim>\<open>scaled\<close> on another image: the target size and the two modes are
  recorded, the resampling itself belongs to the toolkit.
\<close>

datatype qimage =
    QImage ndarray nat nat
  | Scaled qimage "nat \<times> nat" aspect_ratio_mode transformation_mode

text \<open>What a panel shows: a caption (\<^verbatim>\<open>setText\<close>) or a pixmap (\<^verbatim>\<open>setPixmap\<close>).\<close>

datatype content = Caption string | Pixmap qimage

datatype alignment = AlignDefault | AlignCenter

subsection \<open>The configuration of the processing engine\<close>

record preprocessing_params =
  image_scaling :: real
  image_rotation :: real
  gaussian_blur :: real
  red_threshold :: real

record edge_detection_params =
  hysteresis_min_thresh :: real
  hysteresis_max_thresh :: real
  dilation_steps :: real

record segment_detection_params =
  d_rho :: real
  d_theta :: real
  min_num_votes :: real
  min_line_length :: real
  max_line_gap :: real
  extension_pixels :: real

record segment_clustering_params =
  num_init :: real
  swipe_clusters :: bool
  num_clusters :: real
  use_centers :: bool
  use_angles :: bool
  cluster_type :: string

record cluster_cleaning_params =
  max_angle_variation_mean :: real
  max_merging_angle :: real
  max_endpoint_distance :: real

record rectangle_detection_params =
  aspect_ratio :: real
  aspect_ratio_relative_deviation :: real
  min_area :: real

record thermo_app =
  preprocessing_parameters :: preprocessing_params
  should_undistort_image :: bool
  edge_detection_parameters :: edge_detection_params
  segment_detection_parameters :: segment_detection_params
  segment_clustering_parameters :: segment_clustering_params
  cluster_cleaning_parameters :: cluster_cleaning_params
  rectangle_detection_parameters :: rectangle_detection_params
  frames :: "ndarray list"

subsection \<open>The worker thread\<close>

text \<open>
  The signals of the worker that carry a frame, and the slots of the window that the
  source connects to the worker's signals. A signal keeps its slots in connection order;
  connecting a slot again adds it again.
\<close>

datatype frame_signal =
    last_frame_signal | attention_frame_signal | edge_frame_signal | segment_frame_signal
  | rectangle_frame_signal | classes_frame_signal | module_map_frame_signal

datatype frame_slot =
    DisplayImage | DisplayAttention | DisplayCannyEdges | DisplaySegmentImage
  | DisplayRectangleImage | DisplayClassesImage | DisplayModuleMapImage

datatype finish_slot = VideoFinished

datatype iteration_slot = UpdateGlobalProgressBar

record thermo_thread_state =
  app :: thermo_app
  input_file_name :: "string option"
  loaded_range :: "(real \<times> real option) option"
  webcam_in_use :: "int option"
  is_paused :: bool
  running :: bool
  frame_connections :: "frame_signal \<Rightarrow> frame_slot list"
  finish_connections :: "finish_slot list"
  iteration_connections :: "iteration_slot list"

text \<open>
  Modelled from the spec: the class \<^verbatim>\<open>ThermoGuiThread\<close> of \<^verbatim>\<open>gui.threads\<close> is not among
  the sources. A fresh worker is idle: it is not running, not paused, has no source bound
  and nothing subscribed to its signals. The default configuration of its engine is a
  parameter.
\<close>

definition ThermoGuiThread :: "thermo_app \<Rightarrow> thermo_thread_state" where
  "ThermoGuiThread app0 =
     \<lparr>app = app0, input_file_name = None, loaded_range = None, webcam_in_use = None,
      is_paused = False, running = False,
      frame_connections = (\<lambda>_. []), finish_connections = [], iteration_connections = []\<rparr>"

subsection \<open>The window\<close>

text \<open>
  The widgets are declared by the generated class \<^verbatim>\<open>Ui_ThermoGUI_main_window\<close>, which
  is not among the sources. The model names every widget the source touches and keeps,
  per widget, the properties the source reads or writes. The ranges of the numeric
  controls are set in that class; the model stores the value handed to \<^verbatim>\<open>setValue\<close>.
\<close>

datatype widget =
    play_video_button | pause_video_button | stop_video_button
  | image_scaling_slider | undistort_image_box
  | angle_value | blur_value | temperature_value
  | max_histeresis_value | min_histeresis_value | dilation_value
  | delta_rho_value | delta_theta_value | min_votes_value | min_length_value
  | max_gap_value | extend_segments_value
  | gmm_value | knn_value | num_clusters_value | num_init_value
  | use_angle_value | use_centers_value | swipe_clusters_value
  | max_angle_variation_mean_value | max_merging_angle_value | max_merging_distance_value
  | expected_ratio_value | ratio_max_deviation_value | min_area_value
  | video_from_index | video_to_index

datatype view =
    video_view | attention_view | canny_edges_view | segment_image_view
  | rectangle_image_view | class_image_view | module_image_view

text \<open>
  The caption of the scaling label is either a plain string or the text
  \<^verbatim>\<open>"Input image scaling: {:0.2f}".format(x)\<close>, kept as the number it formats.
\<close>

datatype label_caption = PlainCaption string | ImageScalingCaption real

record webcam_dialog =
  port_subscribed :: bool
  shown :: bool
  started :: bool

record gui =
  thermo_thread :: thermo_thread_state
  is_stoppable :: bool
  last_folder_opened :: "string option"
  capture :: "webcam_dialog option"
  webcam_port :: "int option"
  window_title :: string
  val :: "widget \<Rightarrow> real"
  enabled :: "widget \<Rightarrow> bool"
  checked :: "widget \<Rightarrow> bool"
  image_scaling_label :: label_caption
  progress_minimum :: int
  progress_maximum :: int
  progress_value :: int
  progress_calls :: "int list"
  view_content :: "view \<Rightarrow> content"
  view_size :: "view \<Rightarrow> nat \<times> nat"
  view_alignment :: "view \<Rightarrow> alignment"

subsection \<open>Parameter synchronisation\<close>

text \<open>
  Each function below is one method of \<^verbatim>\<open>ThermoGUI\<close>; a write to
  \<^verbatim>\<open>self.thermo_thread.app.<group>.<field>\<close> is the same path of record updates.
  The worker is never \<^verbatim>\<open>None\<close> in this class, so the test in
  \<^verbatim>\<open>__update_image_scaling\<close> always passes.
\<close>

definition update_image_scaling :: "gui \<Rightarrow> gui" where
  "update_image_scaling s =
     (let image_scaling_v = val s image_scaling_slider * (1 / 10) in
      (thermo_thread_update (app_update (preprocessing_parameters_update
         (image_scaling_update (\<lambda>_. image_scaling_v)))) s)
        \<lparr>image_scaling_label := ImageScalingCaption image_scaling_v\<rparr>)"

definition update_blur_value :: "gui \<Rightarrow> gui" where
  "update_blur_value s =
     thermo_thread_update (app_update (preprocessing_parameters_update
       (gaussian_blur_update (\<lambda>_. val s blur_value)))) s"

definition update_temperature_value :: "gui \<Rightarrow> gui" where
  "update_temperature_value s =
     thermo_thread_update (app_update (preprocessing_parameters_update
       (red_threshold_update (\<lambda>_. val s temperature_value)))) s"

text \<open>
  \<^verbatim>\<open>setValue\<close> on a control emits \<^verbatim>\<open>valueChanged\<close> when the value changes, and the
  slots connected in \<^verbatim>\<open>__connect_widgets\<close> run before \<^verbatim>\<open>setValue\<close> returns. The angle
  control is connected to \<^verbatim>\<open>__update_preprocessing_params\<close>, so resetting it from 360
  to 0 inside \<^verbatim>\<open>__update_image_angle\<close> runs the whole preprocessing update again, on
  the new value.
\<close>

function update_image_angle :: "gui \<Rightarrow> gui"
  and update_preprocessing_params :: "gui \<Rightarrow> gui" where
  "update_image_angle s =
     (let s1 = thermo_thread_update (app_update (preprocessing_parameters_update
                 (image_rotation_update (\<lambda>_. val s angle_value * pi / 180)))) s in
      if val s1 angle_value = 360
      then update_preprocessing_params (s1\<lparr>val := (val s1)(angle_value := 0)\<rparr>)
      else s1)"
| "update_preprocessing_params s =
     update_temperature_value (update_blur_value (update_image_angle (update_image_scaling s)))"
  by pat_completeness auto
termination
  by (relation "measure (\<lambda>x. case x of
          Inl s \<Rightarrow> (if val s angle_value = 360 then 2 else 0)
        | Inr s \<Rightarrow> (if val s angle_value = 360 then 3 else 1))")
     (auto simp: update_image_scaling_def Let_def)

text \<open>
  The maximum control is connected to \<^verbatim>\<open>__update_histeresis_params\<close> itself: when
  \<^verbatim>\<open>setValue\<close> changes its value the method runs again before the outer call writes the
  two thresholds.
\<close>

function update_histeresis_params :: "gui \<Rightarrow> gui" where
  "update_histeresis_params s =
     (let min_value = val s min_histeresis_value;
          max_value = val s max_histeresis_value;
          max_value = (if max_value \<le> min_value then min_value + 1 else max_value);
          s1 = (if val s max_histeresis_value = max_value then s
                else update_histeresis_params
                       (s\<lparr>val := (val s)(max_histeresis_value := max_value)\<rparr>));
          s2 = thermo_thread_update (app_update (edge_detection_parameters_update
                 (hysteresis_max_thresh_update (\<lambda>_. max_value)))) s1
      in thermo_thread_update (app_update (edge_detection_parameters_update
           (hysteresis_min_thresh_update (\<lambda>_. min_value)))) s2)"
  by pat_completeness auto
termination
  by (relation "measure (\<lambda>s. if val s max_histeresis_value \<le> val s min_histeresis_value
                              then 1 else 0)")
     (auto split: if_splits)

definition update_dilation_steps :: "gui \<Rightarrow> gui" where
  "update_dilation_steps s =
     thermo_thread_update (app_update (edge_detection_parameters_update
       (dilation_steps_update (\<lambda>_. val s dilation_value)))) s"

definition update_image_distortion :: "gui \<Rightarrow> gui" where
  "update_image_distortion s =
     thermo_thread_update (app_update
       (should_undistort_image_update (\<lambda>_. checked s undistort_image_box))) s"

definition update_edge_params :: "gui \<Rightarrow> gui" where
  "update_edge_params s =
     thermo_thread_update (app_update (segment_detection_parameters_update
       (\<lambda>p. p\<lparr>d_rho := val s delta_rho_value,
              d_theta := pi / 180 * val s delta_theta_value,
              min_num_votes := val s min_votes_value,
              min_line_length := val s min_length_value,
              max_line_gap := val s max_gap_value,
              extension_pixels := val s extend_segments_value\<rparr>))) s"

definition update_clustering_params :: "gui \<Rightarrow> gui" where
  "update_clustering_params s =
     (let s1 = thermo_thread_update (app_update (segment_clustering_parameters_update
                 (\<lambda>p. p\<lparr>num_init := val s num_init_value,
                        swipe_clusters := checked s swipe_clusters_value,
                        num_clusters := val s num_clusters_value,
                        use_centers := checked s use_centers_value,
                        use_angles := checked s use_angle_value\<rparr>))) s
      in if checked s1 knn_value then
           (thermo_thread_update (app_update (segment_clustering_parameters_update
              (cluster_type_update (\<lambda>_. ''knn'')))) s1)
             \<lparr>enabled := (enabled s1)(swipe_clusters_value := False, num_init_value := True)\<rparr>
         else if checked s1 gmm_value then
           (thermo_thread_update (app_update (segment_clustering_parameters_update
              (cluster_type_update (\<lambda>_. ''gmm'')))) s1)
             \<lparr>enabled := (enabled s1)(swipe_clusters_value := True, num_init_value := False)\<rparr>
         else s1)"

definition update_cluster_cleaning_params :: "gui \<Rightarrow> gui" where
  "update_cluster_cleaning_params s =
     thermo_thread_update (app_update (cluster_cleaning_parameters_update
       (\<lambda>p. p\<lparr>max_angle_variation_mean := pi / 180 * val s max_angle_variation_mean_value,
              max_merging_angle := pi / 180 * val s max_merging_angle_value,
              max_endpoint_distance := pi / 180 * val s max_merging_distance_value\<rparr>))) s"

definition update_rectangle_detection_params :: "gui \<Rightarrow> gui" where
  "update_rectangle_detection_params s =
     thermo_thread_update (app_update (rectangle_detection_parameters_update
       (\<lambda>p. p\<lparr>aspect_ratio := val s expected_ratio_value,
              aspect_ratio_relative_deviation := val s ratio_max_deviation_value,
              min_area := val s min_area_value\<rparr>))) s"

subsection \<open>Controlling the worker\<close>

definition connect_frame :: "frame_signal \<Rightarrow> frame_slot \<Rightarrow> thermo_thread_state \<Rightarrow> thermo_thread_state" where
  "connect_frame sig slot t =
     t\<lparr>frame_connections := (frame_connections t)(sig := frame_connections t sig @ [slot])\<rparr>"

definition connect_thermo_thread :: "gui \<Rightarrow> gui" where
  "connect_thermo_thread s =
     thermo_thread_update
       (\<lambda>t. finish_connections_update (\<lambda>c. c @ [VideoFinished])
              (fold (\<lambda>(sig, slot). connect_frame sig slot)
                 [(last_frame_signal, DisplayImage),
                  (attention_frame_signal, DisplayAttention),
                  (edge_frame_signal, DisplayCannyEdges),
                  (segment_frame_signal, DisplaySegmentImage),
                  (rectangle_frame_signal, DisplayRectangleImage),
                  (classes_frame_signal, DisplayClassesImage),
                  (module_map_frame_signal, DisplayModuleMapImage)] t)) s"

text \<open>\<^verbatim>\<open>os.path.dirname\<close> for paths separated by a slash.\<close>

definition dirname :: "string \<Rightarrow> string" where
  "dirname p =
     (let head = rev (dropWhile (\<lambda>c. c \<noteq> CHR ''/'') (rev p)) in
      if head \<noteq> [] \<and> head \<noteq> replicate (length head) (CHR ''/'')
      then rev (dropWhile (\<lambda>c. c = CHR ''/'') (rev head))
      else head)"

text \<open>
  \<^verbatim>\<open>__load_video_from_file\<close>. The answer of the file dialog is the argument
  \<open>video_file_name\<close>; \<open>video_loader\<close> stands for \<^verbatim>\<open>ThermoGuiThread.load_video\<close>,
  which leaves the loaded frames in \<^verbatim>\<open>app.frames\<close>.
\<close>

definition load_video_from_file ::
    "(string \<Rightarrow> real \<Rightarrow> real option \<Rightarrow> ndarray list) \<Rightarrow> string \<Rightarrow> gui \<Rightarrow> gui" where
  "load_video_from_file video_loader video_file_name s =
     (if video_file_name = [] then s
      else
        let s1 = s\<lparr>last_folder_opened := Some (dirname video_file_name)\<rparr>;
            s2 = thermo_thread_update (input_file_name_update (\<lambda>_. Some video_file_name)) s1;
            s3 = s2\<lparr>is_stoppable := True,
                    window_title := ''Thermography: '' @ video_file_name\<rparr>;
            start_frame = val s3 video_from_index;
            end_frame = (if val s3 video_to_index = - 1 then None
                         else Some (val s3 video_to_index));
            s4 = thermo_thread_update
                   (\<lambda>t. t\<lparr>loaded_range := Some (start_frame, end_frame),
                          app := (app t)\<lparr>frames := video_loader video_file_name start_frame end_frame\<rparr>\<rparr>)
                   s3;
            s5 = s4\<lparr>progress_minimum := 0,
                    progress_maximum := int (length (frames (app (thermo_thread s4)))) - 1\<rparr>
        in thermo_thread_update
             (iteration_connections_update (\<lambda>c. c @ [UpdateGlobalProgressBar])) s5)"

definition play_all_frames :: "gui \<Rightarrow> gui" where
  "play_all_frames s =
     (let s1 = thermo_thread_update (is_paused_update (\<lambda>_. False)) s;
          s2 = s1\<lparr>enabled := (enabled s1)(image_scaling_slider := False)\<rparr>;
          s3 = update_image_scaling s2;
          s4 = s3\<lparr>image_scaling_label := ImageScalingCaption
                    (image_scaling (preprocessing_parameters (app (thermo_thread s3))))\<rparr>;
          s5 = s4\<lparr>enabled := (enabled s4)(play_video_button := False)\<rparr>;
          s6 = s5\<lparr>enabled := (enabled s5)(pause_video_button := True)\<rparr>;
          s7 = (if is_stoppable s6
                then s6\<lparr>enabled := (enabled s6)(stop_video_button := True)\<rparr> else s6)
      in thermo_thread_update (running_update (\<lambda>_. True)) s7)"

definition video_finished :: "bool \<Rightarrow> gui \<Rightarrow> gui" where
  "video_finished finished s =
     s\<lparr>enabled := (enabled s)(play_video_button := finished,
                              pause_video_button := \<not> finished,
                              stop_video_button := \<not> finished,
                              image_scaling_slider := finished)\<rparr>"

definition stop_all_frames :: "gui \<Rightarrow> gui" where
  "stop_all_frames s =
     video_finished True (thermo_thread_update (running_update (\<lambda>_. False)) s)"

definition pause_all_frames :: "gui \<Rightarrow> gui" where
  "pause_all_frames s =
     (let s1 = thermo_thread_update (is_paused_update (\<lambda>_. True)) s;
          s2 = s1\<lparr>enabled := (enabled s1)(play_video_button := True)\<rparr>;
          s3 = (if is_stoppable s2
                then s2\<lparr>enabled := (enabled s2)(stop_video_button := True)\<rparr> else s2)
      in s3\<lparr>enabled := (enabled s3)(pause_video_button := False)\<rparr>)"

text \<open>
  \<^verbatim>\<open>self.global_progress_bar.setValue(v)\<close>: the bar shows \<open>v\<close>. The window keeps
  the values handed to the bar, in call order, so that how often the bar is updated can be
  read off the window.
\<close>

definition progress_setValue :: "int \<Rightarrow> gui \<Rightarrow> gui" where
  "progress_setValue v s = s\<lparr>progress_value := v, progress_calls := progress_calls s @ [v]\<rparr>"

definition update_global_progress_bar :: "int \<Rightarrow> gui \<Rightarrow> gui" where
  "update_global_progress_bar frame_index s = progress_setValue frame_index s"

subsection \<open>Painting the panels\<close>

definition display_image :: "ndarray \<Rightarrow> gui \<Rightarrow> error + gui" where
  "display_image frame s =
     (case cvtColor frame COLOR_BGR2RGB of
        Inl e \<Rightarrow> Inl e
      | Inr frame \<Rightarrow>
          let image = QImage frame (shape1 frame) (shape0 frame);
              image = Scaled image (view_size s video_view) KeepAspectRatio SmoothTransformation
          in Inr (s\<lparr>view_content := (view_content s)(video_view := Pixmap image)\<rparr>))"

definition display_attention :: "ndarray \<Rightarrow> gui \<Rightarrow> error + gui" where
  "display_attention frame s =
     (case cvtColor frame COLOR_BGR2RGB of
        Inl e \<Rightarrow> Inl e
      | Inr frame \<Rightarrow>
          let image = QImage frame (shape1 frame) (shape0 frame);
              image = Scaled image (view_size s video_view) KeepAspectRatio SmoothTransformation
          in Inr (s\<lparr>view_content := (view_content s)(attention_view := Pixmap image)\<rparr>))"

definition display_canny_edges :: "ndarray \<Rightarrow> gui \<Rightarrow> error + gui" where
  "display_canny_edges frame s =
     (case cvtColor frame COLOR_GRAY2RGB of
        Inl e \<Rightarrow> Inl e
      | Inr frame \<Rightarrow>
          let image = QImage frame (shape1 frame) (shape0 frame);
              image = Scaled image (view_size s video_view) KeepAspectRatio SmoothTransformation
          in Inr (s\<lparr>view_content := (view_content s)(canny_edges_view := Pixmap image)\<rparr>))"

definition display_segment_image :: "ndarray \<Rightarrow> gui \<Rightarrow> error + gui" where
  "display_segment_image frame s =
     (case cvtColor frame COLOR_BGR2RGB of
        Inl e \<Rightarrow> Inl e
      | Inr frame \<Rightarrow>
          let image = QImage frame (shape1 frame) (shape0 frame);
              image = Scaled image (view_size s video_view) KeepAspectRatio SmoothTransformation
          in Inr (s\<lparr>view_content := (view_content s)(segment_image_view := Pixmap image)\<rparr>))"

definition display_rectangle_image :: "ndarray \<Rightarrow> gui \<Rightarrow> error + gui" where
  "display_rectangle_image frame s =
     (case cvtColor frame COLOR_BGR2RGB of
        Inl e \<Rightarrow> Inl e
      | Inr frame \<Rightarrow>
          let image = QImage frame (shape1 frame) (shape0 frame);
              image = Scaled image (view_size s video_view) KeepAspectRatio SmoothTransformation
          in Inr (s\<lparr>view_content := (view_content s)(rectangle_image_view := Pixmap image)\<rparr>))"

definition display_module_map_image :: "ndarray \<Rightarrow> gui \<Rightarrow> error + gui" where
  "display_module_map_image frame s =
     (case cvtColor frame COLOR_BGR2RGB of
        Inl e \<Rightarrow> Inl e
      | Inr frame \<Rightarrow>
          let image = QImage frame (shape1 frame) (shape0 frame);
              image = Scaled image (view_size s video_view) KeepAspectRatio SmoothTransformation
          in Inr (s\<lparr>view_content := (view_content s)(module_image_view := Pixmap image)\<rparr>))"

text \<open>\<^verbatim>\<open>__resize_video_view(size, view)\<close>: \<^verbatim>\<open>view.setFixedSize(size[1], size[0])\<close>, where
  \<open>sz\<close> is \<^verbatim>\<open>frame.shape\<close> (rows, then columns) and a view's size is (width, height).\<close>

definition resize_video_view :: "nat \<times> nat \<Rightarrow> view \<Rightarrow> gui \<Rightarrow> gui" where
  "resize_video_view sz v s = s\<lparr>view_size := (view_size s)(v := (snd sz, fst sz))\<rparr>"

definition display_classes_image :: "ndarray \<Rightarrow> gui \<Rightarrow> error + gui" where
  "display_classes_image frame s =
     (case cvtColor frame COLOR_BGR2RGB of
        Inl e \<Rightarrow> Inl e
      | Inr frame \<Rightarrow>
          let s1 = resize_video_view (shape0 frame, shape1 frame) class_image_view s;
              image = QImage frame (shape1 frame) (shape0 frame)
          in Inr (s1\<lparr>view_content := (view_content s1)(class_image_view := Pixmap image)\<rparr>))"

subsection \<open>Webcam and reset\<close>

definition set_webcam_port :: "int \<Rightarrow> gui \<Rightarrow> gui" where
  "set_webcam_port port s =
     (let s1 = s\<lparr>webcam_port := Some port\<rparr>;
          s2 = thermo_thread_update (webcam_in_use_update (\<lambda>_. webcam_port s1)) s1;
          s3 = s2\<lparr>is_stoppable := False, window_title := ''Thermography: Webcam''\<rparr>
      in play_all_frames s3)"

text \<open>
  \<^verbatim>\<open>setChecked\<close> on the undistort box emits \<^verbatim>\<open>stateChanged\<close> when the state changes;
  the slot connected to it is \<^verbatim>\<open>__update_image_distortion\<close>.
\<close>

definition set_undistort_checked :: "bool \<Rightarrow> gui \<Rightarrow> gui" where
  "set_undistort_checked b s =
     (if checked s undistort_image_box = b then s
      else update_image_distortion (s\<lparr>checked := (checked s)(undistort_image_box := b)\<rparr>))"

definition load_webcam :: "gui \<Rightarrow> gui" where
  "load_webcam s =
     (let s1 = s\<lparr>capture := Some \<lparr>port_subscribed = True, shown = True, started = True\<rparr>\<rparr>;
          s2 = set_undistort_checked True s1
      in set_undistort_checked False s2)"

text \<open>
  \<^verbatim>\<open>__reset_app\<close>. \<open>app0\<close> is the configuration a new worker starts with. The scaling
  slider is connected to \<^verbatim>\<open>__update_image_scaling\<close> and, after it, to
  \<^verbatim>\<open>__update_preprocessing_params\<close>; both run when \<^verbatim>\<open>setValue(10)\<close> changes the value.
\<close>

definition reset_app :: "thermo_app \<Rightarrow> gui \<Rightarrow> gui" where
  "reset_app app0 s =
     (let s1 = thermo_thread_update (running_update (\<lambda>_. False)) s;
          s2 = s1\<lparr>thermo_thread := ThermoGuiThread app0\<rparr>;
          s3 = (if val s2 image_scaling_slider = 10 then s2
                else update_preprocessing_params (update_image_scaling
                       (s2\<lparr>val := (val s2)(image_scaling_slider := 10)\<rparr>)));
          s4 = video_finished True s3;
          s5 = progress_setValue 0 s4;
          s6 = s5\<lparr>view_content := (view_content s5)(video_view := Caption ''Input Image'')\<rparr>;
          s7 = s6\<lparr>view_content := (view_content s6)(canny_edges_view := Caption ''Edges Image'')\<rparr>;
          s8 = s7\<lparr>view_content := (view_content s7)(segment_image_view := Caption ''Segment Image'')\<rparr>;
          s9 = s8\<lparr>view_content := (view_content s8)(rectangle_image_view := Caption ''Rectangle Image'')\<rparr>;
          s10 = s9\<lparr>view_content := (view_content s9)(module_image_view := Caption ''Module Map'')\<rparr>;
          s11 = s10\<lparr>view_alignment := (view_alignment s10)(module_image_view := AlignCenter)\<rparr>;
          s12 = s11\<lparr>capture := None, webcam_port := None, window_title := ''Thermography''\<rparr>
      in connect_thermo_thread s12)"

text \<open>
  \<^verbatim>\<open>__init__\<close>: \<open>ui\<close> is the window as \<^verbatim>\<open>setupUi\<close> leaves it.
\<close>

definition init :: "thermo_app \<Rightarrow> gui \<Rightarrow> gui" where
  "init app0 ui =
     (let s1 = ui\<lparr>thermo_thread := ThermoGuiThread app0, is_stoppable := True,
                 last_folder_opened := None\<rparr>;
          s2 = connect_thermo_thread s1
      in s2\<lparr>capture := None, webcam_port := None\<rparr>)"

text \<open>
  Delivery of the worker's signals: every connected slot runs, in connection order. A
  slot that raises ends the delivery.
\<close>

fun run_frame_slot :: "frame_slot \<Rightarrow> ndarray \<Rightarrow> gui \<Rightarrow> error + gui" where
  "run_frame_slot DisplayImage = display_image"
| "run_frame_slot DisplayAttention = display_attention"
| "run_frame_slot DisplayCannyEdges = display_canny_edges"
| "run_frame_slot DisplaySegmentImage = display_segment_image"
| "run_frame_slot DisplayRectangleImage = display_rectangle_image"
| "run_frame_slot DisplayClassesImage = display_classes_image"
| "run_frame_slot DisplayModuleMapImage = display_module_map_image"

fun deliver_frame :: "frame_slot list \<Rightarrow> ndarray \<Rightarrow> gui \<Rightarrow> error + gui" where
  "deliver_frame [] frame s = Inr s"
| "deliver_frame (slot # slots) frame s =
     (case run_frame_slot slot frame s of
        Inl e \<Rightarrow> Inl e
      | Inr s' \<Rightarrow> deliver_frame slots frame s')"

definition emit_frame :: "frame_signal \<Rightarrow> ndarray \<Rightarrow> gui \<Rightarrow> error + gui" where
  "emit_frame sig frame s = deliver_frame (frame_connections (thermo_thread s) sig) frame s"

fun run_iteration_slot :: "iteration_slot \<Rightarrow> int \<Rightarrow> gui \<Rightarrow> gui" where
  "run_iteration_slot UpdateGlobalProgressBar = update_global_progress_bar"

definition emit_iteration :: "int \<Rightarrow> gui \<Rightarrow> gui" where
  "emit_iteration frame_index s =
     fold (\<lambda>slot. run_iteration_slot slot frame_index) (iteration_connections (thermo_thread s)) s"

fun run_finish_slot :: "finish_slot \<Rightarrow> bool \<Rightarrow> gui \<Rightarrow> gui" where
  "run_finish_slot VideoFinished = video_finished"

definition emit_finish :: "bool \<Rightarrow> gui \<Rightarrow> gui" where
  "emit_finish finished s =
     fold (\<lambda>slot. run_finish_slot slot finished) (finish_connections (thermo_thread s)) s"

subsection \<open>The wiring of the widgets\<close>

text \<open>
  The methods that copy control values into the configuration, and for every widget the
  methods that \<^verbatim>\<open>__connect_widgets\<close> connects to its change signal, in connection order.
\<close>

datatype sync_op =
    UpdateImageScaling | UpdateImageAngle | UpdateBlurValue | UpdateTemperatureValue
  | UpdatePreprocessingParams | UpdateHisteresisParams | UpdateDilationSteps
  | UpdateImageDistortion | UpdateEdgeParams | UpdateClusteringParams
  | UpdateClusterCleaningParams | UpdateRectangleDetectionParams

fun sync :: "sync_op \<Rightarrow> gui \<Rightarrow> gui" where
  "sync UpdateImageScaling = update_image_scaling"
| "sync UpdateImageAngle = update_image_angle"
| "sync UpdateBlurValue = update_blur_value"
| "sync UpdateTemperatureValue = update_temperature_value"
| "sync UpdatePreprocessingParams = update_preprocessing_params"
| "sync UpdateHisteresisParams = update_histeresis_params"
| "sync UpdateDilationSteps = update_dilation_steps"
| "sync UpdateImageDistortion = update_image_distortion"
| "sync UpdateEdgeParams = update_edge_params"
| "sync UpdateClusteringParams = update_clustering_params"
| "sync UpdateClusterCleaningParams = update_cluster_cleaning_params"
| "sync UpdateRectangleDetectionParams = update_rectangle_detection_params"

fun connected :: "widget \<Rightarrow> sync_op list" where
  "connected image_scaling_slider = [UpdateImageScaling, UpdatePreprocessingParams]"
| "connected undistort_image_box = [UpdateImageDistortion]"
| "connected angle_value = [UpdatePreprocessingParams]"
| "connected blur_value = [UpdatePreprocessingParams]"
| "connected temperature_value = [UpdatePreprocessingParams]"
| "connected max_histeresis_value = [UpdateHisteresisParams]"
| "connected min_histeresis_value = [UpdateHisteresisParams]"
| "connected dilation_value = [UpdateDilationSteps]"
| "connected delta_rho_value = [UpdateEdgeParams]"
| "connected delta_theta_value = [UpdateEdgeParams]"
| "connected min_votes_value = [UpdateEdgeParams]"
| "connected min_length_value = [UpdateEdgeParams]"
| "connected max_gap_value = [UpdateEdgeParams]"
| "connected extend_segments_value = [UpdateEdgeParams]"
| "connected gmm_value = [UpdateClusteringParams]"
| "connected knn_value = [UpdateClusteringParams]"
| "connected num_clusters_value = [UpdateClusteringParams]"
| "connected num_init_value = [UpdateClusteringParams]"
| "connected use_angle_value = [UpdateClusteringParams]"
| "connected use_centers_value = [UpdateClusteringParams]"
| "connected swipe_clusters_value = [UpdateClusteringParams]"
| "connected max_angle_variation_mean_value = [UpdateClusterCleaningParams]"
| "connected max_merging_angle_value = [UpdateClusterCleaningParams]"
| "connected max_merging_distance_value = [UpdateClusterCleaningParams]"
| "connected expected_ratio_value = [UpdateRectangleDetectionParams]"
| "connected ratio_max_deviation_value = [UpdateRectangleDetectionParams]"
| "connected min_area_value = [UpdateRectangleDetectionParams]"
| "connected play_video_button = []"
| "connected pause_video_button = []"
| "connected stop_video_button = []"
| "connected video_from_index = []"
| "connected video_to_index = []"

text \<open>
  The kind of every widget, read off the signal the source connects
  (\<^verbatim>\<open>clicked\<close>, \<^verbatim>\<open>stateChanged\<close>, \<^verbatim>\<open>valueChanged\<close>) and the accessor it calls
  (\<^verbatim>\<open>isChecked\<close>, \<^verbatim>\<open>value\<close>): the two algorithm selectors are connected by
  \<^verbatim>\<open>clicked\<close> and read by \<^verbatim>\<open>isChecked\<close>.
\<close>

datatype widget_kind = PushButton | Selector | CheckBox | NumericControl

fun kind :: "widget \<Rightarrow> widget_kind" where
  "kind play_video_button = PushButton"
| "kind pause_video_button = PushButton"
| "kind stop_video_button = PushButton"
| "kind gmm_value = Selector"
| "kind knn_value = Selector"
| "kind undistort_image_box = CheckBox"
| "kind use_angle_value = CheckBox"
| "kind use_centers_value = CheckBox"
| "kind swipe_clusters_value = CheckBox"
| "kind _ = NumericControl"

text \<open>
  Modelled from the spec: the two selectors are declared in
  \<^verbatim>\<open>Ui_ThermoGUI_main_window\<close>, which is not among the sources. The spec has them as a
  mutually exclusive pair of selectors {knn, gmm}: a click on one of them checks it and
  unchecks the other.
\<close>

definition click_selector :: "widget \<Rightarrow> gui \<Rightarrow> gui" where
  "click_selector w s =
     s\<lparr>checked := (checked s)(knn_value := (w = knn_value), gmm_value := (w = gmm_value))\<rparr>"

text \<open>
  What reaches the window. From the user: a click on one of its buttons (the click on the
  load button comes with the answer of the file dialog), a click on a selector, the
  toggling of a check box, the setting of a numeric control to a new value. A disabled
  widget takes no input, and a numeric control reports a change only when the value
  differs. The toolkit updates the widget and then runs the slots connected to its
  signal. The source never disables the load, reset and webcam buttons. From the webcam
  dialog: the port it reports. From the worker: its signals.
\<close>

datatype event =
    LoadVideoClicked string
  | ResetClicked
  | PlayClicked
  | StopClicked
  | PauseClicked
  | DetectWebcamClicked
  | WebcamPortSignal int
  | SelectorClicked widget
  | Toggled widget
  | Edited widget real
  | FrameSignal frame_signal ndarray
  | IterationSignal int
  | FinishSignal bool

fun handle ::
    "(string \<Rightarrow> real \<Rightarrow> real option \<Rightarrow> ndarray list) \<Rightarrow> thermo_app \<Rightarrow> event \<Rightarrow> gui \<Rightarrow> error + gui" where
  "handle video_loader app0 (LoadVideoClicked video_file_name) s =
     Inr (load_video_from_file video_loader video_file_name s)"
| "handle video_loader app0 ResetClicked s = Inr (reset_app app0 s)"
| "handle video_loader app0 PlayClicked s =
     Inr (if enabled s play_video_button then play_all_frames s else s)"
| "handle video_loader app0 StopClicked s =
     Inr (if enabled s stop_video_button then stop_all_frames s else s)"
| "handle video_loader app0 PauseClicked s =
     Inr (if enabled s pause_video_button then pause_all_frames s else s)"
| "handle video_loader app0 DetectWebcamClicked s = Inr (load_webcam s)"
| "handle video_loader app0 (WebcamPortSignal port) s = Inr (set_webcam_port port s)"
| "handle video_loader app0 (SelectorClicked w) s =
     Inr (if kind w = Selector \<and> enabled s w
          then fold sync (connected w) (click_selector w s) else s)"
| "handle video_loader app0 (Toggled w) s =
     Inr (if kind w = CheckBox \<and> enabled s w
          then fold sync (connected w) (s\<lparr>checked := (checked s)(w := \<not> checked s w)\<rparr>)
          else s)"
| "handle video_loader app0 (Edited w v) s =
     Inr (if kind w = NumericControl \<and> enabled s w \<and> v \<noteq> val s w
          then fold sync (connected w) (s\<lparr>val := (val s)(w := v)\<rparr>)
          else s)"
| "handle video_loader app0 (FrameSignal sig frame) s = emit_frame sig frame s"
| "handle video_loader app0 (IterationSignal frame_index) s = Inr (emit_iteration frame_index s)"
| "handle video_loader app0 (FinishSignal finished) s = Inr (emit_finish finished s)"

fun run ::
    "(string \<Rightarrow> real \<Rightarrow> real option \<Rightarrow> ndarray list) \<Rightarrow> thermo_app \<Rightarrow> event list \<Rightarrow> gui \<Rightarrow> error + gui" where
  "run video_loader app0 [] s = Inr s"
| "run video_loader app0 (e # es) s =
     (case handle video_loader app0 e s of
        Inl err \<Rightarrow> Inl err
      | Inr s' \<Rightarrow> run video_loader app0 es s')"

text \<open>A click on the load button whose dialog was not cancelled.\<close>

fun successful_load :: "event \<Rightarrow> bool" where
  "successful_load (LoadVideoClicked video_file_name) = (video_file_name \<noteq> [])"
| "successful_load _ = False"

subsection \<open>A concrete window\<close>

text \<open>
  A configuration, a window and a video loader on which the statements below are
  evaluated.
\<close>

definition example_app :: thermo_app where
  "example_app =
     \<lparr>preprocessing_parameters =
        \<lparr>image_scaling = 1, image_rotation = 0, gaussian_blur = 3, red_threshold = 200\<rparr>,
      should_undistort_image = False,
      edge_detection_parameters =
        \<lparr>hysteresis_min_thresh = 30, hysteresis_max_thresh = 140, dilation_steps = 3\<rparr>,
      segment_detection_parameters =
        \<lparr>d_rho = 1, d_theta = pi / 180, min_num_votes = 60, min_line_length = 50,
         max_line_gap = 150, extension_pixels = 10\<rparr>,
      segment_clustering_parameters =
        \<lparr>num_init = 10, swipe_clusters = False, num_clusters = 2, use_centers = False,
         use_angles = True, cluster_type = ''gmm''\<rparr>,
      cluster_cleaning_parameters =
        \<lparr>max_angle_variation_mean = pi / 9, max_merging_angle = pi / 18,
         max_endpoint_distance = 10\<rparr>,
      rectangle_detection_parameters =
        \<lparr>aspect_ratio = 3 / 2, aspect_ratio_relative_deviation = 7 / 20, min_area = 800\<rparr>,
      frames = []\<rparr>"

definition example_ui :: gui where
  "example_ui =
     \<lparr>thermo_thread = ThermoGuiThread example_app,
      is_stoppable = True,
      last_folder_opened = None,
      capture = None,
      webcam_port = None,
      window_title = ''Thermography'',
      val = (\<lambda>_. 0)(image_scaling_slider := 10, min_histeresis_value := 30,
                      max_histeresis_value := 140, video_to_index := - 1),
      enabled = (\<lambda>_. True)(pause_video_button := False, stop_video_button := False),
      checked = (\<lambda>_. False)(gmm_value := True),
      image_scaling_label = PlainCaption ''Input image scaling'',
      progress_minimum = 0,
      progress_maximum = 100,
      progress_value = 0,
      progress_calls = [],
      view_content = (\<lambda>_. Caption []),
      view_size = (\<lambda>_. (640, 480))(attention_view := (320, 240)),
      view_alignment = (\<lambda>_. AlignDefault)\<rparr>"

definition example_loader :: "string \<Rightarrow> real \<Rightarrow> real option \<Rightarrow> ndarray list" where
  "example_loader video_file_name start_frame end_frame =
     replicate 100 (Color [[(0, 0, 255)]])"

section \<open>Properties\<close>

subsection \<open>Closed forms of the re-entrant updates\<close>

declare update_histeresis_params.simps [simp del]
declare update_image_angle.simps [simp del]
declare update_preprocessing_params.simps [simp del]

lemmas sync_defs =
  update_image_scaling_def update_blur_value_def update_temperature_value_def
  update_dilation_steps_def update_image_distortion_def update_edge_params_def
  update_clustering_params_def update_cluster_cleaning_params_def
  update_rectangle_detection_params_def

text \<open>With the thresholds in order nothing is echoed and nothing runs twice.\<close>

lemma update_histeresis_params_ordered:
  assumes "val s min_histeresis_value < val s max_histeresis_value"
  shows "update_histeresis_params s =
     thermo_thread_update (app_update (edge_detection_parameters_update
        (\<lambda>p. p\<lparr>hysteresis_max_thresh := val s max_histeresis_value,
               hysteresis_min_thresh := val s min_histeresis_value\<rparr>))) s"
  using assms by (subst update_histeresis_params.simps) (simp add: Let_def)

text \<open>
  Otherwise the echo changes the maximum control, the method runs once more on the
  corrected control, and the outer call writes the same two thresholds again.
\<close>

lemma update_histeresis_params_inverted:
  assumes "val s max_histeresis_value \<le> val s min_histeresis_value"
  shows "update_histeresis_params s =
     thermo_thread_update (app_update (edge_detection_parameters_update
        (\<lambda>p. p\<lparr>hysteresis_max_thresh := val s min_histeresis_value + 1,
               hysteresis_min_thresh := val s min_histeresis_value\<rparr>)))
       (s\<lparr>val := (val s)(max_histeresis_value := val s min_histeresis_value + 1)\<rparr>)"
  using assms
  by (subst update_histeresis_params.simps)
     (simp add: Let_def update_histeresis_params_ordered)

lemma update_image_angle_other:
  assumes "val s angle_value \<noteq> 360"
  shows "update_image_angle s =
     thermo_thread_update (app_update (preprocessing_parameters_update
       (image_rotation_update (\<lambda>_. val s angle_value * pi / 180)))) s"
  using assms by (subst update_image_angle.simps) (simp add: Let_def)

lemma update_preprocessing_params_other:
  assumes "val s angle_value \<noteq> 360"
  shows "update_preprocessing_params s =
     (thermo_thread_update (app_update (preprocessing_parameters_update
        (\<lambda>p. p\<lparr>image_scaling := val s image_scaling_slider * (1 / 10),
               image_rotation := val s angle_value * pi / 180,
               gaussian_blur := val s blur_value,
               red_threshold := val s temperature_value\<rparr>))) s)
       \<lparr>image_scaling_label := ImageScalingCaption (val s image_scaling_slider * (1 / 10))\<rparr>"
  using assms
  by (subst update_preprocessing_params.simps)
     (simp add: update_image_angle_other sync_defs Let_def)

text \<open>
  At 360 the value first written is \<open>360 * pi / 180\<close>; the reset of the control then
  runs the preprocessing update on the control at 0, which overwrites it.
\<close>

lemma update_image_angle_360:
  assumes "val s angle_value = 360"
  shows "update_image_angle s =
     (thermo_thread_update (app_update (preprocessing_parameters_update
        (\<lambda>p. p\<lparr>image_scaling := val s image_scaling_slider * (1 / 10),
               image_rotation := 0,
               gaussian_blur := val s blur_value,
               red_threshold := val s temperature_value\<rparr>))) s)
       \<lparr>val := (val s)(angle_value := 0),
        image_scaling_label := ImageScalingCaption (val s image_scaling_slider * (1 / 10))\<rparr>"
  using assms
  by (subst update_image_angle.simps)
     (simp add: Let_def update_preprocessing_params_other)

lemma update_preprocessing_params_360:
  assumes "val s angle_value = 360"
  shows "update_preprocessing_params s =
     (thermo_thread_update (app_update (preprocessing_parameters_update
        (\<lambda>p. p\<lparr>image_scaling := val s image_scaling_slider * (1 / 10),
               image_rotation := 0,
               gaussian_blur := val s blur_value,
               red_threshold := val s temperature_value\<rparr>))) s)
       \<lparr>val := (val s)(angle_value := 0),
        image_scaling_label := ImageScalingCaption (val s image_scaling_slider * (1 / 10))\<rparr>"
  using assms
  by (subst update_preprocessing_params.simps)
     (simp add: update_image_angle_360 sync_defs Let_def)

subsection \<open>Hysteresis thresholds\<close>

text \<open>
  Claim C1. Let the minimum control hold \<open>mn\<close> and the maximum control hold \<open>mx\<close> when the
  hysteresis update runs. If \<open>mx \<le> mn\<close>, the stored maximum threshold is \<open>mn + 1\<close>, the
  stored minimum threshold is \<open>mn\<close> and the maximum control shows \<open>mn + 1\<close>. If
  \<open>mn < mx\<close>, both values are stored as they are.
\<close>

theorem hysteresis_update:
  assumes "val s min_histeresis_value = mn" and "val s max_histeresis_value = mx"
  shows "(mx \<le> mn \<longrightarrow>
            hysteresis_max_thresh (edge_detection_parameters (app (thermo_thread
              (update_histeresis_params s)))) = mn + 1
          \<and> hysteresis_min_thresh (edge_detection_parameters (app (thermo_thread
              (update_histeresis_params s)))) = mn
          \<and> val (update_histeresis_params s) max_histeresis_value = mn + 1)
       \<and> (mn < mx \<longrightarrow>
            hysteresis_max_thresh (edge_detection_parameters (app (thermo_thread
              (update_histeresis_params s)))) = mx
          \<and> hysteresis_min_thresh (edge_detection_parameters (app (thermo_thread
              (update_histeresis_params s)))) = mn)"
  using assms
  by (auto simp: update_histeresis_params_ordered update_histeresis_params_inverted)

theorem hysteresis_update_witness:
  "hysteresis_max_thresh (edge_detection_parameters (app (thermo_thread
     (update_histeresis_params
        (example_ui\<lparr>val := (val example_ui)(min_histeresis_value := 200)\<rparr>))))) = 201
   \<and> hysteresis_min_thresh (edge_detection_parameters (app (thermo_thread
     (update_histeresis_params
        (example_ui\<lparr>val := (val example_ui)(min_histeresis_value := 200)\<rparr>))))) = 200
   \<and> val (update_histeresis_params
        (example_ui\<lparr>val := (val example_ui)(min_histeresis_value := 200)\<rparr>))
       max_histeresis_value = 201"
  using hysteresis_update
          [of "example_ui\<lparr>val := (val example_ui)(min_histeresis_value := 200)\<rparr>" 200 140]
  by (simp add: example_ui_def)

subsection \<open>Rotation\<close>

text \<open>
  Claim C4. Let the rotation control hold \<open>d\<close> degrees when the preprocessing update
  runs. If \<open>d\<close> is not 360, the stored rotation is \<open>d * (pi / 180)\<close>; if \<open>d\<close> is 360,
  the stored rotation is 0 and the control is back at 0. The same holds for the angle
  update on its own.
\<close>

theorem rotation_stored:
  assumes "val s angle_value = d"
  shows "(d \<noteq> 360 \<longrightarrow>
            image_rotation (preprocessing_parameters (app (thermo_thread
              (update_preprocessing_params s)))) = d * (pi / 180)
          \<and> image_rotation (preprocessing_parameters (app (thermo_thread
              (update_image_angle s)))) = d * (pi / 180))
       \<and> (d = 360 \<longrightarrow>
            image_rotation (preprocessing_parameters (app (thermo_thread
              (update_preprocessing_params s)))) = 0
          \<and> val (update_preprocessing_params s) angle_value = 0
          \<and> image_rotation (preprocessing_parameters (app (thermo_thread
              (update_image_angle s)))) = 0
          \<and> val (update_image_angle s) angle_value = 0)"
  using assms
  by (auto simp: update_preprocessing_params_other update_preprocessing_params_360
        update_image_angle_other update_image_angle_360)

theorem rotation_stored_witness:
  "image_rotation (preprocessing_parameters (app (thermo_thread
     (update_preprocessing_params
        (example_ui\<lparr>val := (val example_ui)(angle_value := 360)\<rparr>))))) = 0
   \<and> val (update_preprocessing_params
        (example_ui\<lparr>val := (val example_ui)(angle_value := 360)\<rparr>)) angle_value = 0
   \<and> image_rotation (preprocessing_parameters (app (thermo_thread
     (update_preprocessing_params
        (example_ui\<lparr>val := (val example_ui)(angle_value := 90)\<rparr>))))) = pi / 2"
  using rotation_stored [of "example_ui\<lparr>val := (val example_ui)(angle_value := 360)\<rparr>" 360]
        rotation_stored [of "example_ui\<lparr>val := (val example_ui)(angle_value := 90)\<rparr>" 90]
  by simp


subsection \<open>Idempotence and side effects of the synchronisation methods\<close>

lemma sync_twice: "sync op (sync op s) = sync op s"
proof (cases op)
  case UpdateImageAngle
  then show ?thesis
    by (cases "val s angle_value = 360")
       (simp_all add: update_image_angle_other update_image_angle_360)
next
  case UpdatePreprocessingParams
  then show ?thesis
    by (cases "val s angle_value = 360")
       (simp_all add: update_preprocessing_params_other update_preprocessing_params_360)
next
  case UpdateHisteresisParams
  then show ?thesis
    by (cases "val s max_histeresis_value \<le> val s min_histeresis_value")
       (simp_all add: update_histeresis_params_ordered update_histeresis_params_inverted)
qed (simp_all add: sync_defs Let_def)

lemma sync_frame:
  "sync op s =
     s\<lparr>thermo_thread := (thermo_thread s)\<lparr>app := app (thermo_thread (sync op s))\<rparr>,
       val := val (sync op s),
       image_scaling_label := image_scaling_label (sync op s),
       enabled := enabled (sync op s)\<rparr>"
proof (cases op)
  case UpdateImageAngle
  then show ?thesis
    by (cases "val s angle_value = 360")
       (simp_all add: update_image_angle_other update_image_angle_360)
next
  case UpdatePreprocessingParams
  then show ?thesis
    by (cases "val s angle_value = 360")
       (simp_all add: update_preprocessing_params_other update_preprocessing_params_360)
next
  case UpdateHisteresisParams
  then show ?thesis
    by (cases "val s max_histeresis_value \<le> val s min_histeresis_value")
       (simp_all add: update_histeresis_params_ordered update_histeresis_params_inverted)
qed (simp_all add: sync_defs Let_def)

lemma sync_val:
  assumes "w \<noteq> max_histeresis_value" and "w \<noteq> angle_value"
  shows "val (sync op s) w = val s w"
proof (cases op)
  case UpdateImageAngle
  with assms show ?thesis
    by (cases "val s angle_value = 360")
       (simp_all add: update_image_angle_other update_image_angle_360)
next
  case UpdatePreprocessingParams
  with assms show ?thesis
    by (cases "val s angle_value = 360")
       (simp_all add: update_preprocessing_params_other update_preprocessing_params_360)
next
  case UpdateHisteresisParams
  with assms show ?thesis
    by (cases "val s max_histeresis_value \<le> val s min_histeresis_value")
       (simp_all add: update_histeresis_params_ordered update_histeresis_params_inverted)
qed (simp_all add: sync_defs Let_def)

lemma sync_enabled:
  assumes "w \<noteq> swipe_clusters_value" and "w \<noteq> num_init_value"
  shows "enabled (sync op s) w = enabled s w"
proof (cases op)
  case UpdateImageAngle
  then show ?thesis
    by (cases "val s angle_value = 360")
       (simp_all add: update_image_angle_other update_image_angle_360)
next
  case UpdatePreprocessingParams
  then show ?thesis
    by (cases "val s angle_value = 360")
       (simp_all add: update_preprocessing_params_other update_preprocessing_params_360)
next
  case UpdateHisteresisParams
  then show ?thesis
    by (cases "val s max_histeresis_value \<le> val s min_histeresis_value")
       (simp_all add: update_histeresis_params_ordered update_histeresis_params_inverted)
next
  case UpdateClusteringParams
  with assms show ?thesis
    by (simp add: update_clustering_params_def Let_def)
qed (simp_all add: sync_defs Let_def)

text \<open>
  Claim C8, as stated, names the echo of the hysteresis correction and the reset of the
  rotation control as the only effects of a synchronisation method besides the writes to
  the configuration. The clustering update also enables and disables controls, and the
  scaling update rewrites the scaling label: here with the thresholds in order and the
  rotation control at 0.
\<close>

theorem sync_side_effects_counterexample:
  "enabled (sync UpdateClusteringParams
      (example_ui\<lparr>checked := (checked example_ui)(knn_value := True, gmm_value := False)\<rparr>))
     swipe_clusters_value
   \<noteq> enabled (example_ui\<lparr>checked := (checked example_ui)(knn_value := True, gmm_value := False)\<rparr>)
       swipe_clusters_value
   \<and> image_scaling_label (sync UpdateImageScaling example_ui) \<noteq> image_scaling_label example_ui"
  by (simp add: example_ui_def sync_defs Let_def)

text \<open>
  Claim C8, amended. Every synchronisation method is idempotent: run twice in succession
  it leaves the window, configuration included, as one run does. Besides the
  configuration of the engine a method changes at most the values of the maximum
  hysteresis control and of the rotation control, the caption of the scaling label, and
  the enabled state of the swipe and the init-count controls.
\<close>

theorem sync_idempotent:
  "sync op (sync op s) = sync op s
   \<and> sync op s =
       s\<lparr>thermo_thread := (thermo_thread s)\<lparr>app := app (thermo_thread (sync op s))\<rparr>,
         val := val (sync op s),
         image_scaling_label := image_scaling_label (sync op s),
         enabled := enabled (sync op s)\<rparr>
   \<and> (\<forall>w. w \<noteq> max_histeresis_value \<and> w \<noteq> angle_value \<longrightarrow> val (sync op s) w = val s w)
   \<and> (\<forall>w. w \<noteq> swipe_clusters_value \<and> w \<noteq> num_init_value \<longrightarrow>
          enabled (sync op s) w = enabled s w)"
  using sync_twice [of op s] sync_frame [of op s] sync_val [of _ op s] sync_enabled [of _ op s]
  by blast

theorem sync_idempotent_witness:
  "update_histeresis_params (update_histeresis_params
      (example_ui\<lparr>val := (val example_ui)(min_histeresis_value := 200)\<rparr>))
   = update_histeresis_params (example_ui\<lparr>val := (val example_ui)(min_histeresis_value := 200)\<rparr>)
   \<and> val (update_histeresis_params
        (example_ui\<lparr>val := (val example_ui)(min_histeresis_value := 200)\<rparr>)) blur_value = 0"
  using sync_idempotent
          [of UpdateHisteresisParams
              "example_ui\<lparr>val := (val example_ui)(min_histeresis_value := 200)\<rparr>"]
  by (simp add: example_ui_def)

subsection \<open>Cluster cleaning\<close>

lemma update_cluster_cleaning_params_written:
  "cluster_cleaning_parameters (app (thermo_thread (update_cluster_cleaning_params s))) =
     \<lparr>max_angle_variation_mean = pi / 180 * val s max_angle_variation_mean_value,
      max_merging_angle = pi / 180 * val s max_merging_angle_value,
      max_endpoint_distance = pi / 180 * val s max_merging_distance_value\<rparr>"
  by (simp add: update_cluster_cleaning_params_def)

text \<open>
  Claim C5 says that the merge distance is written as it is. The method multiplies it by
  \<open>pi / 180\<close> like the two angles: a merge distance of 180 is stored as \<open>pi\<close>.
\<close>

theorem cluster_cleaning_distance_at_180:
  "max_endpoint_distance (cluster_cleaning_parameters (app (thermo_thread
     (update_cluster_cleaning_params
        (example_ui\<lparr>val := (val example_ui)(max_merging_distance_value := 180)\<rparr>))))) = pi
   \<and> pi \<noteq> (180 :: real)"
proof -
  have "pi < (180 :: real)" using pi_less_4 by linarith
  then show ?thesis
    by (simp add: update_cluster_cleaning_params_written example_ui_def)
qed


subsection \<open>Painting\<close>

text \<open>
  Claim C7 says that every frame but the classification map is scaled to fit the panel it
  is painted on. The handlers scale to the size of the input panel, whatever panel they
  paint: an attention frame painted on a 320 by 240 attention panel is scaled to the 640
  by 480 of the input panel.
\<close>

theorem attention_scaling_counterexample:
  "view_size example_ui attention_view = (320, 240)
   \<and> display_attention (Color [[(255, 0, 0)]]) example_ui =
       Inr (example_ui\<lparr>view_content := (view_content example_ui)(attention_view :=
              Pixmap (Scaled (QImage (Color [[(0, 0, 255)]]) 1 1) (640, 480)
                        KeepAspectRatio SmoothTransformation))\<rparr>)
   \<and> view_content
         (case display_attention (Color [[(255, 0, 0)]]) example_ui of Inr s \<Rightarrow> s) attention_view
       \<noteq> Pixmap (Scaled (QImage (Color [[(0, 0, 255)]]) 1 1)
                   (view_size example_ui attention_view)
                   KeepAspectRatio SmoothTransformation)"
  by (simp add: display_attention_def example_ui_def)

text \<open>
  Claim C7, amended. An edge frame is expanded from one channel to three, a frame of any
  other kind has its channels reversed from BGR to RGB. Every kind except the
  classification map is scaled, keeping the aspect ratio, to the size of the input panel
  and painted on its own panel; the classification map resizes its panel to the columns
  and rows of the frame and is painted unscaled.
\<close>

theorem frames_painted:
  "run_frame_slot DisplayImage (Color rows) s =
     Inr (s\<lparr>view_content := (view_content s)(video_view :=
            Pixmap (Scaled (QImage (Color (map (map (\<lambda>(b, g, r). (r, g, b))) rows))
                              (shape1 (Color rows)) (shape0 (Color rows)))
                      (view_size s video_view) KeepAspectRatio SmoothTransformation))\<rparr>)
   \<and> run_frame_slot DisplayAttention (Color rows) s =
     Inr (s\<lparr>view_content := (view_content s)(attention_view :=
            Pixmap (Scaled (QImage (Color (map (map (\<lambda>(b, g, r). (r, g, b))) rows))
                              (shape1 (Color rows)) (shape0 (Color rows)))
                      (view_size s video_view) KeepAspectRatio SmoothTransformation))\<rparr>)
   \<and> run_frame_slot DisplayCannyEdges (Gray grows) s =
     Inr (s\<lparr>view_content := (view_content s)(canny_edges_view :=
            Pixmap (Scaled (QImage (Color (map (map (\<lambda>g. (g, g, g))) grows))
                              (shape1 (Gray grows)) (shape0 (Gray grows)))
                      (view_size s video_view) KeepAspectRatio SmoothTransformation))\<rparr>)
   \<and> run_frame_slot DisplaySegmentImage (Color rows) s =
     Inr (s\<lparr>view_content := (view_content s)(segment_image_view :=
            Pixmap (Scaled (QImage (Color (map (map (\<lambda>(b, g, r). (r, g, b))) rows))
                              (shape1 (Color rows)) (shape0 (Color rows)))
                      (view_size s video_view) KeepAspectRatio SmoothTransformation))\<rparr>)
   \<and> run_frame_slot DisplayRectangleImage (Color rows) s =
     Inr (s\<lparr>view_content := (view_content s)(rectangle_image_view :=
            Pixmap (Scaled (QImage (Color (map (map (\<lambda>(b, g, r). (r, g, b))) rows))
                              (shape1 (Color rows)) (shape0 (Color rows)))
                      (view_size s video_view) KeepAspectRatio SmoothTransformation))\<rparr>)
   \<and> run_frame_slot DisplayModuleMapImage (Color rows) s =
     Inr (s\<lparr>view_content := (view_content s)(module_image_view :=
            Pixmap (Scaled (QImage (Color (map (map (\<lambda>(b, g, r). (r, g, b))) rows))
                              (shape1 (Color rows)) (shape0 (Color rows)))
                      (view_size s video_view) KeepAspectRatio SmoothTransformation))\<rparr>)
   \<and> run_frame_slot DisplayClassesImage (Color rows) s =
     Inr (s\<lparr>view_size := (view_size s)(class_image_view :=
                (shape1 (Color rows), shape0 (Color rows))),
            view_content := (view_content s)(class_image_view :=
              Pixmap (QImage (Color (map (map (\<lambda>(b, g, r). (r, g, b))) rows))
                        (shape1 (Color rows)) (shape0 (Color rows))))\<rparr>)"
  by (cases rows; cases grows)
     (simp_all add: display_image_def display_attention_def display_canny_edges_def
        display_segment_image_def display_rectangle_image_def display_classes_image_def
        display_module_map_image_def resize_video_view_def)

theorem frames_painted_witness:
  "display_canny_edges (Gray [[0, 255]]) example_ui =
     Inr (example_ui\<lparr>view_content := (view_content example_ui)(canny_edges_view :=
            Pixmap (Scaled (QImage (Color [[(0, 0, 0), (255, 255, 255)]]) 2 1) (640, 480)
                      KeepAspectRatio SmoothTransformation))\<rparr>)
   \<and> display_classes_image (Color [[(255, 0, 0)], [(0, 0, 9)]]) example_ui =
     Inr (example_ui\<lparr>view_size := (view_size example_ui)(class_image_view := (1, 2)),
            view_content := (view_content example_ui)(class_image_view :=
              Pixmap (QImage (Color [[(0, 0, 255)], [(9, 0, 0)]]) 1 2))\<rparr>)"
proof -
  have v: "view_size example_ui video_view = (640, 480)"
    by (simp add: example_ui_def)
  from frames_painted [of "[[(255, 0, 0)], [(0, 0, 9)]]" example_ui "[[0, 255]]"] v
  show ?thesis by (simp add: numeral_2_eq_2)
qed

subsection \<open>The algorithm selectors\<close>

lemma sync_checked: "checked (sync op s) = checked s"
proof -
  have "checked (sync op s) =
        checked (s\<lparr>thermo_thread := (thermo_thread s)\<lparr>app := app (thermo_thread (sync op s))\<rparr>,
                   val := val (sync op s),
                   image_scaling_label := image_scaling_label (sync op s),
                   enabled := enabled (sync op s)\<rparr>)"
    using sync_frame [of op s] by simp
  then show ?thesis by simp
qed

lemma fold_sync_checked: "checked (fold sync ops s) = checked s"
  by (induction ops arbitrary: s) (simp_all add: sync_checked)

lemma run_frame_slot_checked:
  assumes "run_frame_slot slot frame s = Inr s'"
  shows "checked s' = checked s"
  using assms
  by (cases slot)
     (auto simp: display_image_def display_attention_def display_canny_edges_def
        display_segment_image_def display_rectangle_image_def display_classes_image_def
        display_module_map_image_def resize_video_view_def Let_def split: sum.splits)

lemma deliver_frame_checked:
  assumes "deliver_frame slots frame s = Inr s'"
  shows "checked s' = checked s"
  using assms
proof (induction slots arbitrary: s)
  case Nil
  then show ?case by simp
next
  case (Cons slot slots)
  then obtain s1 where step: "run_frame_slot slot frame s = Inr s1"
    and rest: "deliver_frame slots frame s1 = Inr s'"
    by (auto split: sum.splits)
  from Cons.IH [OF rest] run_frame_slot_checked [OF step] show ?case by simp
qed

lemma fold_iteration_checked:
  "checked (fold (\<lambda>slot. run_iteration_slot slot i) slots s) = checked s"
proof (induction slots arbitrary: s)
  case Nil
  then show ?case by simp
next
  case (Cons slot slots)
  then show ?case
    by (cases slot) (simp add: update_global_progress_bar_def progress_setValue_def)
qed

lemma fold_finish_checked:
  "checked (fold (\<lambda>slot. run_finish_slot slot b) slots s) = checked s"
proof (induction slots arbitrary: s)
  case Nil
  then show ?case by simp
next
  case (Cons slot slots)
  then show ?case by (cases slot) (simp add: video_finished_def)
qed

lemma update_preprocessing_params_checked:
  "checked (update_preprocessing_params s) = checked s"
  using sync_checked [of UpdatePreprocessingParams s] by simp

lemma reset_app_checked: "checked (reset_app app0 s) = checked s"
  by (simp add: reset_app_def Let_def update_preprocessing_params_checked
        update_image_scaling_def video_finished_def connect_thermo_thread_def
        progress_setValue_def)

lemma load_webcam_checked:
  assumes "w \<noteq> undistort_image_box"
  shows "checked (load_webcam s) w = checked s w"
  using assms
  by (simp add: load_webcam_def set_undistort_checked_def update_image_distortion_def Let_def)

lemma controller_checked:
  "checked (load_video_from_file video_loader f s) = checked s"
  "checked (play_all_frames s) = checked s"
  "checked (stop_all_frames s) = checked s"
  "checked (pause_all_frames s) = checked s"
  "checked (set_webcam_port port s) = checked s"
  by (simp_all add: load_video_from_file_def play_all_frames_def stop_all_frames_def
        pause_all_frames_def set_webcam_port_def video_finished_def update_image_scaling_def
        Let_def)

lemma kind_Selector: "kind w = Selector \<longleftrightarrow> w = knn_value \<or> w = gmm_value"
  by (cases w) simp_all

lemma kind_CheckBox:
  assumes "kind w = CheckBox"
  shows "w \<noteq> knn_value" and "w \<noteq> gmm_value"
  using assms by auto

text \<open>A click on an enabled selector selects it and runs the clustering update.\<close>

lemma handle_selector_click:
  assumes "w = knn_value \<or> w = gmm_value" and "enabled s w"
  shows "handle video_loader app0 (SelectorClicked w) s =
           Inr (update_clustering_params (click_selector w s))"
  using assms by auto

lemma handle_exclusive:
  assumes "handle video_loader app0 e s = Inr s'"
    and "\<not> (checked s knn_value \<and> checked s gmm_value)"
  shows "\<not> (checked s' knn_value \<and> checked s' gmm_value)"
proof (cases e)
  case (FrameSignal sig frame)
  with assms have "deliver_frame (frame_connections (thermo_thread s) sig) frame s = Inr s'"
    by (simp add: emit_frame_def)
  from deliver_frame_checked [OF this] assms(2) show ?thesis by simp
next
  case (IterationSignal i)
  with assms have "s' = emit_iteration i s" by simp
  with assms(2) show ?thesis by (simp add: emit_iteration_def fold_iteration_checked)
next
  case (FinishSignal b)
  with assms have "s' = emit_finish b s" by simp
  with assms(2) show ?thesis by (simp add: emit_finish_def fold_finish_checked)
next
  case DetectWebcamClicked
  with assms have "s' = load_webcam s" by simp
  with assms(2) show ?thesis by (simp add: load_webcam_checked)
next
  case (SelectorClicked w)
  show ?thesis
  proof (cases "kind w = Selector \<and> enabled s w")
    case True
    with assms(1) SelectorClicked have "s' = fold sync (connected w) (click_selector w s)"
      by simp
    then have "checked s' = checked (click_selector w s)"
      by (simp add: fold_sync_checked)
    then show ?thesis by (simp add: click_selector_def)
  next
    case False
    with assms(1) SelectorClicked have "s' = s" by auto
    with assms(2) show ?thesis by simp
  qed
next
  case (Toggled w)
  show ?thesis
  proof (cases "kind w = CheckBox \<and> enabled s w")
    case True
    with assms(1) Toggled
    have "s' = fold sync (connected w) (s\<lparr>checked := (checked s)(w := \<not> checked s w)\<rparr>)"
      by simp
    then have "checked s' = (checked s)(w := \<not> checked s w)"
      by (simp add: fold_sync_checked)
    moreover from True have "w \<noteq> knn_value" and "w \<noteq> gmm_value"
      using kind_CheckBox by blast+
    ultimately show ?thesis using assms(2) by simp
  next
    case False
    with assms(1) Toggled have "s' = s" by auto
    with assms(2) show ?thesis by simp
  qed
next
  case (Edited w v)
  show ?thesis
  proof (cases "kind w = NumericControl \<and> enabled s w \<and> v \<noteq> val s w")
    case True
    with assms(1) Edited
    have "s' = fold sync (connected w) (s\<lparr>val := (val s)(w := v)\<rparr>)"
      by simp
    then have "checked s' = checked s"
      by (simp add: fold_sync_checked)
    with assms(2) show ?thesis by simp
  next
    case False
    with assms(1) Edited have "s' = s" by auto
    with assms(2) show ?thesis by simp
  qed
next
  case ResetClicked
  with assms have "s' = reset_app app0 s" by simp
  with assms(2) show ?thesis by (simp add: reset_app_checked)
next
  case (LoadVideoClicked f)
  with assms have "s' = load_video_from_file video_loader f s" by simp
  with assms(2) show ?thesis by (simp add: controller_checked)
next
  case PlayClicked
  with assms have "s' = (if enabled s play_video_button then play_all_frames s else s)" by simp
  with assms(2) show ?thesis by (simp add: controller_checked)
next
  case StopClicked
  with assms have "s' = (if enabled s stop_video_button then stop_all_frames s else s)" by simp
  with assms(2) show ?thesis by (simp add: controller_checked)
next
  case PauseClicked
  with assms have "s' = (if enabled s pause_video_button then pause_all_frames s else s)" by simp
  with assms(2) show ?thesis by (simp add: controller_checked)
next
  case (WebcamPortSignal port)
  with assms have "s' = set_webcam_port port s" by simp
  with assms(2) show ?thesis by (simp add: controller_checked)
qed

lemma run_exclusive:
  assumes "run video_loader app0 evs s = Inr s'"
    and "\<not> (checked s knn_value \<and> checked s gmm_value)"
  shows "\<not> (checked s' knn_value \<and> checked s' gmm_value)"
  using assms
proof (induction evs arbitrary: s)
  case Nil
  then show ?case by simp
next
  case (Cons e evs)
  from Cons.prems(1) obtain s1 where step: "handle video_loader app0 e s = Inr s1"
    and rest: "run video_loader app0 evs s1 = Inr s'"
    by (auto split: sum.splits)
  from handle_exclusive [OF step Cons.prems(2)] Cons.IH [OF rest] show ?case by blast
qed

lemma update_clustering_params_knn:
  assumes "checked s knn_value"
  shows "cluster_type (segment_clustering_parameters (app (thermo_thread
           (update_clustering_params s)))) = ''knn''
       \<and> \<not> enabled (update_clustering_params s) swipe_clusters_value
       \<and> enabled (update_clustering_params s) num_init_value"
  using assms by (simp add: update_clustering_params_def Let_def)

lemma update_clustering_params_gmm:
  assumes "checked s gmm_value" and "\<not> checked s knn_value"
  shows "cluster_type (segment_clustering_parameters (app (thermo_thread
           (update_clustering_params s)))) = ''gmm''
       \<and> enabled (update_clustering_params s) swipe_clusters_value
       \<and> \<not> enabled (update_clustering_params s) num_init_value"
  using assms by (simp add: update_clustering_params_def Let_def)

text \<open>
  Claim C6. A click on the knn selector, in any window where it is enabled, leaves knn
  checked and gmm unchecked, the cluster type \<open>knn\<close>, the swipe control disabled and the
  init-count control enabled; a click on the gmm selector does the inverse. Starting from
  a window in which the two selectors are not both checked, they are not both checked
  after any sequence of events, and in every window so reached the clustering update
  gives: if knn is checked the cluster type is \<open>knn\<close>, the swipe control is disabled and
  the init-count control is enabled; if gmm is checked the cluster type is \<open>gmm\<close>, the
  swipe control is enabled and the init-count control is disabled. The update itself
  leaves the selectors as they are.
\<close>

theorem clustering_selectors:
  assumes "run video_loader app0 evs s = Inr s'"
    and "\<not> (checked s knn_value \<and> checked s gmm_value)"
  shows "\<not> (checked s' knn_value \<and> checked s' gmm_value)
       \<and> (checked s' knn_value \<longrightarrow>
            cluster_type (segment_clustering_parameters (app (thermo_thread
              (update_clustering_params s')))) = ''knn''
          \<and> \<not> enabled (update_clustering_params s') swipe_clusters_value
          \<and> enabled (update_clustering_params s') num_init_value)
       \<and> (checked s' gmm_value \<longrightarrow>
            cluster_type (segment_clustering_parameters (app (thermo_thread
              (update_clustering_params s')))) = ''gmm''
          \<and> enabled (update_clustering_params s') swipe_clusters_value
          \<and> \<not> enabled (update_clustering_params s') num_init_value)
       \<and> checked (update_clustering_params s') = checked s'
       \<and> (\<forall>t. enabled t knn_value \<longrightarrow>
            (\<exists>t'. handle video_loader app0 (SelectorClicked knn_value) t = Inr t'
                \<and> checked t' knn_value \<and> \<not> checked t' gmm_value
                \<and> cluster_type (segment_clustering_parameters (app (thermo_thread t'))) = ''knn''
                \<and> \<not> enabled t' swipe_clusters_value \<and> enabled t' num_init_value))
       \<and> (\<forall>t. enabled t gmm_value \<longrightarrow>
            (\<exists>t'. handle video_loader app0 (SelectorClicked gmm_value) t = Inr t'
                \<and> checked t' gmm_value \<and> \<not> checked t' knn_value
                \<and> cluster_type (segment_clustering_parameters (app (thermo_thread t'))) = ''gmm''
                \<and> enabled t' swipe_clusters_value \<and> \<not> enabled t' num_init_value))"
proof -
  have excl: "\<not> (checked s' knn_value \<and> checked s' gmm_value)"
    using run_exclusive [OF assms] .
  have knn: "checked s' knn_value \<longrightarrow>
            cluster_type (segment_clustering_parameters (app (thermo_thread
              (update_clustering_params s')))) = ''knn''
          \<and> \<not> enabled (update_clustering_params s') swipe_clusters_value
          \<and> enabled (update_clustering_params s') num_init_value"
    using update_clustering_params_knn by blast
  have gmm: "checked s' gmm_value \<longrightarrow>
            cluster_type (segment_clustering_parameters (app (thermo_thread
              (update_clustering_params s')))) = ''gmm''
          \<and> enabled (update_clustering_params s') swipe_clusters_value
          \<and> \<not> enabled (update_clustering_params s') num_init_value"
    using update_clustering_params_gmm excl by blast
  have same: "checked (update_clustering_params s') = checked s'"
    using sync_checked [of UpdateClusteringParams s'] by simp
  have click_knn: "\<forall>t. enabled t knn_value \<longrightarrow>
            (\<exists>t'. handle video_loader app0 (SelectorClicked knn_value) t = Inr t'
                \<and> checked t' knn_value \<and> \<not> checked t' gmm_value
                \<and> cluster_type (segment_clustering_parameters (app (thermo_thread t'))) = ''knn''
                \<and> \<not> enabled t' swipe_clusters_value \<and> enabled t' num_init_value)"
    by (simp add: update_clustering_params_def click_selector_def Let_def)
  have click_gmm: "\<forall>t. enabled t gmm_value \<longrightarrow>
            (\<exists>t'. handle video_loader app0 (SelectorClicked gmm_value) t = Inr t'
                \<and> checked t' gmm_value \<and> \<not> checked t' knn_value
                \<and> cluster_type (segment_clustering_parameters (app (thermo_thread t'))) = ''gmm''
                \<and> enabled t' swipe_clusters_value \<and> \<not> enabled t' num_init_value)"
    by (simp add: update_clustering_params_def click_selector_def Let_def)
  from excl knn gmm same click_knn click_gmm show ?thesis by blast
qed

theorem clustering_selectors_witness:
  "run example_loader example_app [SelectorClicked knn_value] example_ui =
     Inr (update_clustering_params (click_selector knn_value example_ui))
   \<and> checked (update_clustering_params (click_selector knn_value example_ui)) knn_value
   \<and> \<not> checked (update_clustering_params (click_selector knn_value example_ui)) gmm_value
   \<and> cluster_type (segment_clustering_parameters (app (thermo_thread
       (update_clustering_params (update_clustering_params
          (click_selector knn_value example_ui)))))) = ''knn''
   \<and> \<not> enabled (update_clustering_params (update_clustering_params
          (click_selector knn_value example_ui))) swipe_clusters_value"
proof -
  have excl: "\<not> (checked example_ui knn_value \<and> checked example_ui gmm_value)"
    by (simp add: example_ui_def)
  have en: "enabled example_ui knn_value"
    by (simp add: example_ui_def)
  have r: "run example_loader example_app [SelectorClicked knn_value] example_ui =
     Inr (update_clustering_params (click_selector knn_value example_ui))"
    using en by simp
  have k: "checked (update_clustering_params (click_selector knn_value example_ui)) knn_value"
    using sync_checked [of UpdateClusteringParams "click_selector knn_value example_ui"]
    by (simp add: click_selector_def)
  from clustering_selectors [OF r excl] k r show ?thesis by blast
qed


subsection \<open>Webcam runs and the stop operation\<close>

text \<open>
  Claim C10. When the webcam dialog reports a port, the run starts at once: the port is
  bound, the run is marked not stoppable, the title is set and the start operation runs
  on that window, so that the worker is running and not paused, the start control is
  disabled, the pause control is enabled and the scaling control is disabled.
\<close>

theorem webcam_port_starts_run:
  "set_webcam_port port s =
     play_all_frames
       (s\<lparr>webcam_port := Some port,
          thermo_thread := (thermo_thread s)\<lparr>webcam_in_use := Some port\<rparr>,
          is_stoppable := False,
          window_title := ''Thermography: Webcam''\<rparr>)
   \<and> webcam_port (set_webcam_port port s) = Some port
   \<and> webcam_in_use (thermo_thread (set_webcam_port port s)) = Some port
   \<and> \<not> is_stoppable (set_webcam_port port s)
   \<and> window_title (set_webcam_port port s) = ''Thermography: Webcam''
   \<and> running (thermo_thread (set_webcam_port port s))
   \<and> \<not> is_paused (thermo_thread (set_webcam_port port s))
   \<and> \<not> enabled (set_webcam_port port s) play_video_button
   \<and> enabled (set_webcam_port port s) pause_video_button
   \<and> \<not> enabled (set_webcam_port port s) image_scaling_slider"
  by (simp add: set_webcam_port_def play_all_frames_def update_image_scaling_def Let_def)

lemma webcam_port_running:
  "\<not> is_stoppable (set_webcam_port port s)"
  "running (thermo_thread (set_webcam_port port s))"
  "enabled (set_webcam_port port s) pause_video_button"
  by (simp_all add: set_webcam_port_def play_all_frames_def update_image_scaling_def Let_def)

lemma stop_all_frames_result:
  "stop_all_frames s =
     s\<lparr>thermo_thread := (thermo_thread s)\<lparr>running := False\<rparr>,
       enabled := (enabled s)(play_video_button := True, pause_video_button := False,
                              stop_video_button := False, image_scaling_slider := True)\<rparr>"
  by (simp add: stop_all_frames_def video_finished_def)

text \<open>The stop control is enabled by the start and the pause operations only when the
  run is stoppable; no operation disables it when a run becomes not stoppable.\<close>

lemma stop_control_gated:
  assumes "\<not> is_stoppable s"
  shows "enabled (play_all_frames s) stop_video_button = enabled s stop_video_button"
    and "enabled (pause_all_frames s) stop_video_button = enabled s stop_video_button"
  using assms
  by (simp_all add: play_all_frames_def pause_all_frames_def update_image_scaling_def Let_def)

lemma set_webcam_port_stop_control:
  "enabled (set_webcam_port port s) stop_video_button = enabled s stop_video_button"
  by (simp add: set_webcam_port_def play_all_frames_def update_image_scaling_def Let_def)

text \<open>
  Claim C2 says that stopping a run that is not stoppable does nothing. The start and the
  pause operations enable the stop control only for a stoppable run, but a webcam port
  that arrives while a file run is playing makes the run not stoppable and leaves the
  stop control enabled. A click on it then reaches the stop operation, which does not
  look at the flag: it terminates the worker of the webcam run and changes the controls.
  Here a video is loaded and played, the webcam dialog is opened and reports port 0, and
  the stop control is clicked.
\<close>

theorem stop_terminates_webcam_run:
  "case run example_loader example_app
          [LoadVideoClicked ''a.mp4'', PlayClicked, DetectWebcamClicked, WebcamPortSignal 0]
          (init example_app example_ui) of
     Inl err \<Rightarrow> False
   | Inr s \<Rightarrow>
       \<not> is_stoppable s
     \<and> running (thermo_thread s)
     \<and> enabled s stop_video_button
     \<and> enabled s pause_video_button
     \<and> (case handle example_loader example_app StopClicked s of
          Inl err \<Rightarrow> False
        | Inr s' \<Rightarrow>
            \<not> running (thermo_thread s')
          \<and> \<not> enabled s' pause_video_button
          \<and> enabled s' play_video_button
          \<and> s' \<noteq> s)"
proof -
  define s0 where "s0 = init example_app example_ui"
  define s1 where "s1 = load_video_from_file example_loader ''a.mp4'' s0"
  define s2 where "s2 = play_all_frames s1"
  define s3 where "s3 = load_webcam s2"
  define s4 where "s4 = set_webcam_port 0 s3"
  have p1: "enabled s1 play_video_button" and st1: "is_stoppable s1"
    by (simp_all add: s1_def s0_def load_video_from_file_def init_def connect_thermo_thread_def
          example_ui_def Let_def)
  have en2: "enabled s2 stop_video_button"
    using st1 by (simp add: s2_def play_all_frames_def update_image_scaling_def Let_def)
  have en3: "enabled s3 stop_video_button"
    using en2
    by (simp add: s3_def load_webcam_def set_undistort_checked_def update_image_distortion_def
          Let_def)
  have en4: "enabled s4 stop_video_button"
    using en3 by (simp add: s4_def set_webcam_port_stop_control)
  have w4: "\<not> is_stoppable s4" "running (thermo_thread s4)" "enabled s4 pause_video_button"
    using webcam_port_running [of 0 s3] by (simp_all add: s4_def)
  have r: "run example_loader example_app
          [LoadVideoClicked ''a.mp4'', PlayClicked, DetectWebcamClicked, WebcamPortSignal 0]
          s0 = Inr s4"
    using p1 by (simp add: s1_def [symmetric] s2_def [symmetric] s3_def [symmetric]
                   s4_def [symmetric])
  have h: "handle example_loader example_app StopClicked s4 = Inr (stop_all_frames s4)"
    using en4 by simp
  have a1: "\<not> running (thermo_thread (stop_all_frames s4))"
    and a2: "\<not> enabled (stop_all_frames s4) pause_video_button"
    and a3: "enabled (stop_all_frames s4) play_video_button"
    by (simp_all add: stop_all_frames_result)
  from a1 w4(2) have a4: "stop_all_frames s4 \<noteq> s4" by metis
  show ?thesis
    unfolding s0_def [symmetric] r
    using w4 en4 h a1 a2 a3 a4 by simp
qed


subsection \<open>Reset\<close>

lemma connect_thermo_thread_frame:
  "frame_connections (thermo_thread (connect_thermo_thread s)) sig =
     frame_connections (thermo_thread s) sig @
        [case sig of
           last_frame_signal \<Rightarrow> DisplayImage
         | attention_frame_signal \<Rightarrow> DisplayAttention
         | edge_frame_signal \<Rightarrow> DisplayCannyEdges
         | segment_frame_signal \<Rightarrow> DisplaySegmentImage
         | rectangle_frame_signal \<Rightarrow> DisplayRectangleImage
         | classes_frame_signal \<Rightarrow> DisplayClassesImage
         | module_map_frame_signal \<Rightarrow> DisplayModuleMapImage]"
  by (cases sig) (simp_all add: connect_thermo_thread_def connect_frame_def)

lemma connect_thermo_thread_other:
  "finish_connections (thermo_thread (connect_thermo_thread s)) =
     finish_connections (thermo_thread s) @ [VideoFinished]"
  "iteration_connections (thermo_thread (connect_thermo_thread s)) =
     iteration_connections (thermo_thread s)"
  "running (thermo_thread (connect_thermo_thread s)) = running (thermo_thread s)"
  "is_paused (thermo_thread (connect_thermo_thread s)) = is_paused (thermo_thread s)"
  "input_file_name (thermo_thread (connect_thermo_thread s)) = input_file_name (thermo_thread s)"
  "webcam_in_use (thermo_thread (connect_thermo_thread s)) = webcam_in_use (thermo_thread s)"
  by (simp_all add: connect_thermo_thread_def connect_frame_def)

lemma update_preprocessing_params_thread:
  "running (thermo_thread (update_preprocessing_params s)) = running (thermo_thread s)"
  "is_paused (thermo_thread (update_preprocessing_params s)) = is_paused (thermo_thread s)"
  "input_file_name (thermo_thread (update_preprocessing_params s)) = input_file_name (thermo_thread s)"
  "webcam_in_use (thermo_thread (update_preprocessing_params s)) = webcam_in_use (thermo_thread s)"
  "frame_connections (thermo_thread (update_preprocessing_params s)) = frame_connections (thermo_thread s)"
  "finish_connections (thermo_thread (update_preprocessing_params s)) = finish_connections (thermo_thread s)"
  "iteration_connections (thermo_thread (update_preprocessing_params s)) = iteration_connections (thermo_thread s)"
  by (cases "val s angle_value = 360";
      simp add: update_preprocessing_params_other update_preprocessing_params_360)+

lemma update_preprocessing_params_rest:
  "view_content (update_preprocessing_params s) = view_content s"
  "progress_value (update_preprocessing_params s) = progress_value s"
  "enabled (update_preprocessing_params s) = enabled s"
  by (cases "val s angle_value = 360";
      simp add: update_preprocessing_params_other update_preprocessing_params_360)+


text \<open>What the reset does, on any window.\<close>

lemma reset_app_worker:
  "running (thermo_thread (reset_app app0 s)) = False"
  "is_paused (thermo_thread (reset_app app0 s)) = False"
  "input_file_name (thermo_thread (reset_app app0 s)) = None"
  "webcam_in_use (thermo_thread (reset_app app0 s)) = None"
  "iteration_connections (thermo_thread (reset_app app0 s)) = []"
  "finish_connections (thermo_thread (reset_app app0 s)) = [VideoFinished]"
  by (simp_all add: reset_app_def Let_def connect_thermo_thread_other video_finished_def
        ThermoGuiThread_def update_image_scaling_def update_preprocessing_params_thread
        progress_setValue_def)

lemma reset_app_frame_connections:
  "frame_connections (thermo_thread (reset_app app0 s)) sig =
        [case sig of
           last_frame_signal \<Rightarrow> DisplayImage
         | attention_frame_signal \<Rightarrow> DisplayAttention
         | edge_frame_signal \<Rightarrow> DisplayCannyEdges
         | segment_frame_signal \<Rightarrow> DisplaySegmentImage
         | rectangle_frame_signal \<Rightarrow> DisplayRectangleImage
         | classes_frame_signal \<Rightarrow> DisplayClassesImage
         | module_map_frame_signal \<Rightarrow> DisplayModuleMapImage]"
  by (simp add: reset_app_def Let_def connect_thermo_thread_frame video_finished_def
        ThermoGuiThread_def update_image_scaling_def update_preprocessing_params_thread
        progress_setValue_def)

lemma reset_app_window:
  "progress_value (reset_app app0 s) = 0"
  "enabled (reset_app app0 s) play_video_button"
  "\<not> enabled (reset_app app0 s) pause_video_button"
  "\<not> enabled (reset_app app0 s) stop_video_button"
  "enabled (reset_app app0 s) image_scaling_slider"
  "view_content (reset_app app0 s) video_view = Caption ''Input Image''"
  "view_content (reset_app app0 s) canny_edges_view = Caption ''Edges Image''"
  "view_content (reset_app app0 s) segment_image_view = Caption ''Segment Image''"
  "view_content (reset_app app0 s) rectangle_image_view = Caption ''Rectangle Image''"
  "view_content (reset_app app0 s) module_image_view = Caption ''Module Map''"
  "view_content (reset_app app0 s) attention_view = view_content s attention_view"
  "view_content (reset_app app0 s) class_image_view = view_content s class_image_view"
  by (simp_all add: reset_app_def Let_def connect_thermo_thread_def video_finished_def
        update_preprocessing_params_rest update_image_scaling_def progress_setValue_def)


lemma init_frame_connections:
  "frame_connections (thermo_thread (init app0 ui)) sig =
        [case sig of
           last_frame_signal \<Rightarrow> DisplayImage
         | attention_frame_signal \<Rightarrow> DisplayAttention
         | edge_frame_signal \<Rightarrow> DisplayCannyEdges
         | segment_frame_signal \<Rightarrow> DisplaySegmentImage
         | rectangle_frame_signal \<Rightarrow> DisplayRectangleImage
         | classes_frame_signal \<Rightarrow> DisplayClassesImage
         | module_map_frame_signal \<Rightarrow> DisplayModuleMapImage]"
  by (simp add: init_def Let_def connect_thermo_thread_frame ThermoGuiThread_def)

lemma init_window:
  "view_size (init app0 ui) = view_size ui"
  "view_content (init app0 ui) = view_content ui"
  by (simp_all add: init_def Let_def connect_thermo_thread_def)

text \<open>
  Claim C3 says that the reset puts all seven panels back to their captions. The method
  sets the caption of five of them and has no line for the attention panel and the
  classification panel. Here the window receives an attention frame and a classification
  frame and is then reset: the worker is new and idle, the subscriptions are bound again,
  the progress is 0 and the input panel shows its caption, but the two panels still show
  the frames.
\<close>

theorem reset_leaves_attention_and_classes:
  "case run example_loader example_app
          [FrameSignal attention_frame_signal (Color [[(255, 0, 0)]]),
           FrameSignal classes_frame_signal (Color [[(255, 0, 0)]]),
           ResetClicked]
          (init example_app example_ui) of
     Inl err \<Rightarrow> False
   | Inr s \<Rightarrow>
       view_content s attention_view =
         Pixmap (Scaled (QImage (Color [[(0, 0, 255)]]) 1 1) (640, 480)
                   KeepAspectRatio SmoothTransformation)
     \<and> view_content s class_image_view = Pixmap (QImage (Color [[(0, 0, 255)]]) 1 1)
     \<and> view_content s video_view = Caption ''Input Image''
     \<and> progress_value s = 0
     \<and> \<not> running (thermo_thread s)
     \<and> frame_connections (thermo_thread s) attention_frame_signal = [DisplayAttention]"
proof -
  define s0 where "s0 = init example_app example_ui"
  define s1 where "s1 = s0\<lparr>view_content := (view_content s0)(attention_view :=
      Pixmap (Scaled (QImage (Color [[(0, 0, 255)]]) 1 1) (640, 480)
                KeepAspectRatio SmoothTransformation))\<rparr>"
  define s2 where "s2 = s1\<lparr>view_size := (view_size s1)(class_image_view := (1, 1)),
      view_content := (view_content s1)(class_image_view :=
        Pixmap (QImage (Color [[(0, 0, 255)]]) 1 1))\<rparr>"
  have size0: "view_size s0 video_view = (640, 480)"
    by (simp add: s0_def init_window example_ui_def)
  have e1: "handle example_loader example_app
              (FrameSignal attention_frame_signal (Color [[(255, 0, 0)]])) s0 = Inr s1"
    by (simp add: emit_frame_def s0_def [symmetric] init_frame_connections [of example_app example_ui, folded s0_def]
          display_attention_def size0 s1_def)
  have conn1: "frame_connections (thermo_thread s1) classes_frame_signal = [DisplayClassesImage]"
    by (simp add: s1_def s0_def init_frame_connections)
  have e2: "handle example_loader example_app
              (FrameSignal classes_frame_signal (Color [[(255, 0, 0)]])) s1 = Inr s2"
    by (simp add: emit_frame_def conn1 display_classes_image_def resize_video_view_def s2_def)
  have r: "run example_loader example_app
          [FrameSignal attention_frame_signal (Color [[(255, 0, 0)]]),
           FrameSignal classes_frame_signal (Color [[(255, 0, 0)]]),
           ResetClicked] s0 = Inr (reset_app example_app s2)"
    using e1 e2 by simp
  have "view_content s2 attention_view =
         Pixmap (Scaled (QImage (Color [[(0, 0, 255)]]) 1 1) (640, 480)
                   KeepAspectRatio SmoothTransformation)"
    and "view_content s2 class_image_view = Pixmap (QImage (Color [[(0, 0, 255)]]) 1 1)"
    by (simp_all add: s2_def s1_def)
  then show ?thesis
    unfolding s0_def [symmetric] r
    by (simp add: reset_app_window reset_app_worker reset_app_frame_connections)
qed


subsection \<open>Progress subscriptions\<close>

lemma sync_iteration_connections:
  "iteration_connections (thermo_thread (sync op s)) = iteration_connections (thermo_thread s)"
proof -
  have "thermo_thread (sync op s) =
        thermo_thread (s\<lparr>thermo_thread := (thermo_thread s)\<lparr>app := app (thermo_thread (sync op s))\<rparr>,
                   val := val (sync op s),
                   image_scaling_label := image_scaling_label (sync op s),
                   enabled := enabled (sync op s)\<rparr>)"
    using sync_frame [of op s] by simp
  then have "thermo_thread (sync op s) =
        (thermo_thread s)\<lparr>app := app (thermo_thread (sync op s))\<rparr>"
    by simp
  then have "iteration_connections (thermo_thread (sync op s)) =
        iteration_connections ((thermo_thread s)\<lparr>app := app (thermo_thread (sync op s))\<rparr>)"
    by simp
  then show ?thesis by simp
qed

lemma fold_sync_iteration_connections:
  "iteration_connections (thermo_thread (fold sync ops s)) = iteration_connections (thermo_thread s)"
  by (induction ops arbitrary: s) (simp_all add: sync_iteration_connections)

lemma run_frame_slot_thread:
  assumes "run_frame_slot slot frame s = Inr s'"
  shows "thermo_thread s' = thermo_thread s"
  using assms
  by (cases slot)
     (auto simp: display_image_def display_attention_def display_canny_edges_def
        display_segment_image_def display_rectangle_image_def display_classes_image_def
        display_module_map_image_def resize_video_view_def Let_def split: sum.splits)

lemma deliver_frame_thread:
  assumes "deliver_frame slots frame s = Inr s'"
  shows "thermo_thread s' = thermo_thread s"
  using assms
proof (induction slots arbitrary: s)
  case Nil
  then show ?case by simp
next
  case (Cons slot slots)
  then obtain s1 where step: "run_frame_slot slot frame s = Inr s1"
    and rest: "deliver_frame slots frame s1 = Inr s'"
    by (auto split: sum.splits)
  from Cons.IH [OF rest] run_frame_slot_thread [OF step] show ?case by simp
qed

lemma fold_iteration_thread:
  "thermo_thread (fold (\<lambda>slot. run_iteration_slot slot i) slots s) = thermo_thread s"
proof (induction slots arbitrary: s)
  case Nil
  then show ?case by simp
next
  case (Cons slot slots)
  then show ?case
    by (cases slot) (simp add: update_global_progress_bar_def progress_setValue_def)
qed

lemma fold_finish_thread:
  "thermo_thread (fold (\<lambda>slot. run_finish_slot slot b) slots s) = thermo_thread s"
proof (induction slots arbitrary: s)
  case Nil
  then show ?case by simp
next
  case (Cons slot slots)
  then show ?case by (cases slot) (simp add: video_finished_def)
qed

lemma controller_iteration_connections:
  "iteration_connections (thermo_thread (load_video_from_file video_loader f s)) =
     iteration_connections (thermo_thread s) @ (if f = [] then [] else [UpdateGlobalProgressBar])"
  "iteration_connections (thermo_thread (play_all_frames s)) = iteration_connections (thermo_thread s)"
  "iteration_connections (thermo_thread (stop_all_frames s)) = iteration_connections (thermo_thread s)"
  "iteration_connections (thermo_thread (pause_all_frames s)) = iteration_connections (thermo_thread s)"
  "iteration_connections (thermo_thread (set_webcam_port port s)) = iteration_connections (thermo_thread s)"
  "iteration_connections (thermo_thread (load_webcam s)) = iteration_connections (thermo_thread s)"
  by (simp_all add: load_video_from_file_def play_all_frames_def stop_all_frames_def
        pause_all_frames_def set_webcam_port_def video_finished_def update_image_scaling_def
        load_webcam_def set_undistort_checked_def update_image_distortion_def Let_def)

lemma handle_iteration_connections:
  assumes "handle video_loader app0 e s = Inr s'" and "e \<noteq> ResetClicked"
  shows "iteration_connections (thermo_thread s') =
           iteration_connections (thermo_thread s) @
           (if successful_load e then [UpdateGlobalProgressBar] else [])"
proof (cases e)
  case (FrameSignal sig frame)
  with assms have "deliver_frame (frame_connections (thermo_thread s) sig) frame s = Inr s'"
    by (simp add: emit_frame_def)
  from deliver_frame_thread [OF this] FrameSignal show ?thesis by simp
next
  case (IterationSignal i)
  with assms have "s' = emit_iteration i s" by simp
  with IterationSignal show ?thesis by (simp add: emit_iteration_def fold_iteration_thread)
next
  case (FinishSignal b)
  with assms have "s' = emit_finish b s" by simp
  with FinishSignal show ?thesis by (simp add: emit_finish_def fold_finish_thread)
next
  case DetectWebcamClicked
  with assms have "s' = load_webcam s" by simp
  with DetectWebcamClicked show ?thesis by (simp add: controller_iteration_connections)
next
  case (SelectorClicked w)
  with assms(1) have "s' = fold sync (connected w) (click_selector w s) \<or> s' = s"
    by (cases "kind w = Selector \<and> enabled s w") auto
  with SelectorClicked show ?thesis
    by (auto simp: fold_sync_iteration_connections click_selector_def)
next
  case (Toggled w)
  with assms(1)
  have "s' = fold sync (connected w) (s\<lparr>checked := (checked s)(w := \<not> checked s w)\<rparr>) \<or> s' = s"
    by (cases "kind w = CheckBox \<and> enabled s w") auto
  with Toggled show ?thesis
    by (auto simp: fold_sync_iteration_connections)
next
  case (Edited w v)
  with assms(1)
  have "s' = fold sync (connected w) (s\<lparr>val := (val s)(w := v)\<rparr>) \<or> s' = s"
    by (cases "kind w = NumericControl \<and> enabled s w \<and> v \<noteq> val s w") auto
  with Edited show ?thesis
    by (auto simp: fold_sync_iteration_connections)
next
  case ResetClicked
  with assms show ?thesis by simp
next
  case (LoadVideoClicked f)
  with assms have "s' = load_video_from_file video_loader f s" by simp
  with LoadVideoClicked show ?thesis by (simp add: controller_iteration_connections)
next
  case PlayClicked
  with assms have "s' = (if enabled s play_video_button then play_all_frames s else s)" by simp
  with PlayClicked show ?thesis by (simp add: controller_iteration_connections)
next
  case StopClicked
  with assms have "s' = (if enabled s stop_video_button then stop_all_frames s else s)" by simp
  with StopClicked show ?thesis by (simp add: controller_iteration_connections)
next
  case PauseClicked
  with assms have "s' = (if enabled s pause_video_button then pause_all_frames s else s)" by simp
  with PauseClicked show ?thesis by (simp add: controller_iteration_connections)
next
  case (WebcamPortSignal port)
  with assms have "s' = set_webcam_port port s" by simp
  with WebcamPortSignal show ?thesis by (simp add: controller_iteration_connections)
qed

lemma run_iteration_connections:
  assumes "run video_loader app0 evs s = Inr s'" and "ResetClicked \<notin> set evs"
  shows "iteration_connections (thermo_thread s') =
           iteration_connections (thermo_thread s) @
           replicate (length (filter successful_load evs)) UpdateGlobalProgressBar"
  using assms
proof (induction evs arbitrary: s)
  case Nil
  then show ?case by simp
next
  case (Cons e evs)
  from Cons.prems obtain s1 where step: "handle video_loader app0 e s = Inr s1"
    and rest: "run video_loader app0 evs s1 = Inr s'"
    by (auto split: sum.splits)
  from Cons.prems have ne: "e \<noteq> ResetClicked" and nr: "ResetClicked \<notin> set evs"
    by auto
  from Cons.IH [OF rest nr] handle_iteration_connections [OF step ne]
  show ?case by (simp add: replicate_append_same)
qed

text \<open>Delivering a progress event to \<open>n\<close> subscriptions of the progress slot.\<close>

lemma deliver_progress:
  "fold (\<lambda>slot. run_iteration_slot slot i) (replicate n UpdateGlobalProgressBar) s =
     (update_global_progress_bar i ^^ n) s"
  by (induction n arbitrary: s) (simp_all add: funpow_swap1)

lemma deliver_progress_calls:
  "progress_calls (fold (\<lambda>slot. run_iteration_slot slot i)
      (replicate n UpdateGlobalProgressBar) s) = progress_calls s @ replicate n i"
  by (induction n arbitrary: s)
     (simp_all add: update_global_progress_bar_def progress_setValue_def replicate_append_same)

lemma deliver_progress_value:
  "progress_value (fold (\<lambda>slot. run_iteration_slot slot i)
      (replicate n UpdateGlobalProgressBar) s) = (if n = 0 then progress_value s else i)"
  by (induction n arbitrary: s)
     (simp_all add: update_global_progress_bar_def progress_setValue_def)

text \<open>
  Claim C9. A click on the load button with a file selected connects the progress slot to
  the worker's progress signal once more and disconnects nothing. Starting from a worker
  with no progress subscription (a new one) and handling any events that do not include
  a reset, the progress slot is subscribed as many times as there were successful loads,
  say \<open>n\<close> times. A progress event with frame index \<open>i\<close> then runs the slot \<open>n\<close> times:
  the progress bar is handed \<open>i\<close> \<open>n\<close> times in a row and, unless \<open>n\<close> is 0, shows \<open>i\<close>.
\<close>

theorem repeated_loads:
  assumes "run video_loader app0 evs s = Inr s'"
    and "ResetClicked \<notin> set evs"
    and "iteration_connections (thermo_thread s) = []"
  shows "iteration_connections (thermo_thread s') =
           replicate (length (filter successful_load evs)) UpdateGlobalProgressBar
       \<and> progress_calls (emit_iteration frame_index s') =
           progress_calls s' @ replicate (length (filter successful_load evs)) frame_index
       \<and> progress_value (emit_iteration frame_index s') =
           (if length (filter successful_load evs) = 0 then progress_value s' else frame_index)
       \<and> emit_iteration frame_index s' =
           (update_global_progress_bar frame_index ^^ length (filter successful_load evs)) s'
       \<and> (\<forall>f s0. f \<noteq> [] \<longrightarrow>
            iteration_connections (thermo_thread (load_video_from_file video_loader f s0)) =
            iteration_connections (thermo_thread s0) @ [UpdateGlobalProgressBar])"
proof -
  from run_iteration_connections [OF assms(1) assms(2)] assms(3)
  have c: "iteration_connections (thermo_thread s') =
           replicate (length (filter successful_load evs)) UpdateGlobalProgressBar"
    by simp
  have calls: "progress_calls (emit_iteration frame_index s') =
           progress_calls s' @ replicate (length (filter successful_load evs)) frame_index"
    unfolding emit_iteration_def c by (rule deliver_progress_calls)
  have shown: "progress_value (emit_iteration frame_index s') =
           (if length (filter successful_load evs) = 0 then progress_value s' else frame_index)"
    unfolding emit_iteration_def c by (rule deliver_progress_value)
  have pow: "emit_iteration frame_index s' =
           (update_global_progress_bar frame_index ^^ length (filter successful_load evs)) s'"
    unfolding emit_iteration_def c by (rule deliver_progress)
  have one: "\<forall>f s0. f \<noteq> [] \<longrightarrow>
            iteration_connections (thermo_thread (load_video_from_file video_loader f s0)) =
            iteration_connections (thermo_thread s0) @ [UpdateGlobalProgressBar]"
    by (simp add: controller_iteration_connections)
  from c calls shown pow one show ?thesis by blast
qed

theorem repeated_loads_witness:
  "run example_loader example_app
     [LoadVideoClicked ''a.mp4'', PlayClicked, LoadVideoClicked ''b.mp4'']
     (init example_app example_ui)
   = Inr (load_video_from_file example_loader ''b.mp4''
           (play_all_frames
              (load_video_from_file example_loader ''a.mp4'' (init example_app example_ui))))
   \<and> iteration_connections (thermo_thread
       (load_video_from_file example_loader ''b.mp4''
          (play_all_frames
             (load_video_from_file example_loader ''a.mp4'' (init example_app example_ui)))))
     = [UpdateGlobalProgressBar, UpdateGlobalProgressBar]
   \<and> progress_calls (emit_iteration 7
       (load_video_from_file example_loader ''b.mp4''
          (play_all_frames
             (load_video_from_file example_loader ''a.mp4'' (init example_app example_ui)))))
     = [7, 7]
   \<and> progress_value (emit_iteration 7
       (load_video_from_file example_loader ''b.mp4''
          (play_all_frames
             (load_video_from_file example_loader ''a.mp4'' (init example_app example_ui)))))
     = 7"
proof -
  have p: "enabled (load_video_from_file example_loader ''a.mp4'' (init example_app example_ui))
             play_video_button"
    by (simp add: load_video_from_file_def init_def connect_thermo_thread_def
          example_ui_def Let_def)
  have r: "run example_loader example_app
             [LoadVideoClicked ''a.mp4'', PlayClicked, LoadVideoClicked ''b.mp4'']
             (init example_app example_ui)
           = Inr (load_video_from_file example_loader ''b.mp4''
                   (play_all_frames
                      (load_video_from_file example_loader ''a.mp4''
                         (init example_app example_ui))))"
    using p by simp
  have n: "ResetClicked \<notin> set [LoadVideoClicked ''a.mp4'', PlayClicked, LoadVideoClicked ''b.mp4'']"
    by simp
  have i: "iteration_connections (thermo_thread (init example_app example_ui)) = []"
    by (simp add: init_def Let_def connect_thermo_thread_other ThermoGuiThread_def)
  have c0: "progress_calls
       (load_video_from_file example_loader ''b.mp4''
          (play_all_frames
             (load_video_from_file example_loader ''a.mp4'' (init example_app example_ui))))
     = []"
    by (simp add: load_video_from_file_def play_all_frames_def update_image_scaling_def
          init_def connect_thermo_thread_def example_ui_def Let_def)
  have f: "length (filter successful_load
             [LoadVideoClicked ''a.mp4'', PlayClicked, LoadVideoClicked ''b.mp4'']) = 2"
    by simp
  note t = repeated_loads [OF r n i, of 7, unfolded f]
  from t have a: "iteration_connections (thermo_thread
       (load_video_from_file example_loader ''b.mp4''
          (play_all_frames
             (load_video_from_file example_loader ''a.mp4'' (init example_app example_ui)))))
     = replicate 2 UpdateGlobalProgressBar"
    by blast
  from t have b: "progress_calls (emit_iteration 7
       (load_video_from_file example_loader ''b.mp4''
          (play_all_frames
             (load_video_from_file example_loader ''a.mp4'' (init example_app example_ui)))))
     = progress_calls
       (load_video_from_file example_loader ''b.mp4''
          (play_all_frames
             (load_video_from_file example_loader ''a.mp4'' (init example_app example_ui))))
       @ replicate 2 7"
    by blast
  from t have c: "progress_value (emit_iteration 7
       (load_video_from_file example_loader ''b.mp4''
          (play_all_frames
             (load_video_from_file example_loader ''a.mp4'' (init example_app example_ui)))))
     = (if (2 :: nat) = 0
        then progress_value
          (load_video_from_file example_loader ''b.mp4''
             (play_all_frames
                (load_video_from_file example_loader ''a.mp4'' (init example_app example_ui))))
        else 7)"
    by blast
  have a': "replicate 2 UpdateGlobalProgressBar = [UpdateGlobalProgressBar, UpdateGlobalProgressBar]"
    by (simp add: numeral_2_eq_2)
  have b': "replicate 2 (7 :: int) = [7, 7]"
    by (simp add: numeral_2_eq_2)
  from c have c': "progress_value (emit_iteration 7
       (load_video_from_file example_loader ''b.mp4''
          (play_all_frames
             (load_video_from_file example_loader ''a.mp4'' (init example_app example_ui)))))
     = 7"
    by simp
  from r a b c' show ?thesis
    unfolding c0 a' b' by simp
qed


end
